theory Spec2Isabelle
  imports Complex_Main "HOL-Library.AList"
begin

section \<open>Conventions of the embedding\<close>

text \<open>
  The decision-to-ledger pipeline of the repository (\<^verbatim>\<open>core/portfolio.py\<close>,
  \<^verbatim>\<open>core/risk_manager.py\<close>, \<^verbatim>\<open>core/order_manager.py\<close>,
  \<^verbatim>\<open>core/trading_engine.py\<close>) is embedded as pure functions with explicit state.

  \<^item> Python \<^verbatim>\<open>int\<close> is \<^typ>\<open>int\<close>. Python \<^verbatim>\<open>float\<close> is \<^typ>\<open>real\<close>: arithmetic is exact, so
    statements hold up to the rounding of binary floating point, and NaN and infinities
    do not exist.
  \<^item> A \<^verbatim>\<open>dict\<close> is an association list in insertion order; \<^verbatim>\<open>d[k] = v\<close> is
    \<^const>\<open>AList.update\<close>, \<^verbatim>\<open>del d[k]\<close> is \<^const>\<open>AList.delete\<close>, \<^verbatim>\<open>d.get(k)\<close> is \<^const>\<open>map_of\<close>.
  \<^item> A naive \<^verbatim>\<open>datetime\<close> is a number of seconds (\<^typ>\<open>int\<close>); \<^verbatim>\<open>datetime.now()\<close> is a
    parameter \<open>now\<close> of every operation that reads the clock, and \<^verbatim>\<open>.date()\<close> is the
    quotient by the length of a day.
  \<^item> A raised exception is a value: an operation that can raise after having mutated its
    object returns \<open>Inl (e, s)\<close> with the exception \<open>e\<close> and the state \<open>s\<close> left behind,
    and \<open>Inr s\<close> when it returns normally.
  \<^item> Logging has no effect on the state and is left out, except where formatting the log
    line raises.
  \<^item> Human-readable messages built with f-strings are values of the datatype \<open>message\<close>
    carrying the numbers the string is formatted from.
  \<^item> Fields that no operation reads (\<^verbatim>\<open>Portfolio.model_portfolios\<close>,
    \<^verbatim>\<open>RiskManager.daily_losses\<close>, \<^verbatim>\<open>RiskManager.position_limits\<close>) are left out of the
    records.
\<close>

subsection \<open>Python primitives\<close>

definition lower_char :: "char \<Rightarrow> char" where
  "lower_char c =
     (case map_of (zip ''ABCDEFGHIJKLMNOPQRSTUVWXYZ'' ''abcdefghijklmnopqrstuvwxyz'') c of
        Some d \<Rightarrow> d
      | None \<Rightarrow> c)"

text \<open>\<^verbatim>\<open>str.lower()\<close> on the ASCII range; no character outside it lowers to a letter of
  \<^verbatim>\<open>'buy'\<close> or \<^verbatim>\<open>'sell'\<close>, the only strings the result is compared with.\<close>

definition lower :: "string \<Rightarrow> string" where
  "lower s = map lower_char s"

text \<open>\<^verbatim>\<open>int(x)\<close> of a float truncates towards zero.\<close>

definition py_int :: "real \<Rightarrow> int" where
  "py_int x = (if 0 \<le> x then \<lfloor>x\<rfloor> else \<lceil>x\<rceil>)"

text \<open>\<^verbatim>\<open>round(x, 2)\<close>: to the nearest hundredth, a tie going to the even neighbour.\<close>

definition round_half_even :: "real \<Rightarrow> int" where
  "round_half_even x =
     (let f = \<lfloor>x\<rfloor>; d = x - of_int f
      in if d < 1 / 2 then f else if 1 / 2 < d then f + 1 else if even f then f else f + 1)"

definition round2 :: "real \<Rightarrow> real" where
  "round2 x = of_int (round_half_even (x * 100)) / 100"

datatype message =
    MsgInsufficientFunds real real
  | MsgNoPosition string
  | MsgInsufficientShares int int
  | MsgQuantityAdjusted int
  | MsgPositionOverLimit real real int
  | MsgDailyLossExceeded real real
  | MsgNearDailyLoss real real
  | MsgConcentrated
  | MsgCorrelated nat real
  | MsgVolatile string real
  | MsgRiskPassed
  | MsgNoQuote string
  | MsgLimitSubmitted
  | MsgRealTradingUnimplemented
  | MsgRiskRejected message
  | MsgOrderFailed
  | MsgTradeFailed
  | MsgNone

datatype error = ValueError message | ZeroDivisionError | TypeError

section \<open>The ledger: \<^verbatim>\<open>core/portfolio.py\<close>\<close>

record position =
  symbol :: string
  quantity :: int
  avg_cost :: real
  current_price :: real
  last_updated :: int

record trade_record =
  tr_timestamp :: int
  tr_symbol :: string
  tr_action :: string
  tr_quantity :: int
  tr_price :: "real option"
  tr_commission :: real
  pnl :: real
  tr_model_name :: string
  tr_reason :: string

text \<open>\<^verbatim>\<open>TradeRecord.price\<close> is annotated \<^verbatim>\<open>float\<close>; the engine passes \<^verbatim>\<open>None\<close> for an unfilled
  limit order, which is why the field is an option here.\<close>

record portfolio =
  initial_capital :: real
  cash_balance :: real
  positions :: "(string \<times> position) list"
  trade_history :: "trade_record list"
  is_initialized :: bool

definition Portfolio :: portfolio where
  "Portfolio = \<lparr>initial_capital = 0, cash_balance = 0, positions = [], trade_history = [],
                is_initialized = False\<rparr>"

definition initialize :: "real \<Rightarrow> portfolio \<Rightarrow> portfolio" where
  "initialize capital p = p\<lparr>initial_capital := capital, cash_balance := capital, is_initialized := True\<rparr>"

definition portfolio_calculate_commission :: "int \<Rightarrow> real \<Rightarrow> real" where
  "portfolio_calculate_commission q price = max (of_int q * (1 / 100)) 1"

definition buy_stock ::
  "string \<Rightarrow> int \<Rightarrow> real \<Rightarrow> real \<Rightarrow> string \<Rightarrow> int \<Rightarrow> portfolio \<Rightarrow> (error \<times> portfolio) + portfolio" where
  "buy_stock symb q price commission model_name now p =
     (let total_cost = of_int q * price + commission in
      if total_cost > cash_balance p
      then Inl (ValueError (MsgInsufficientFunds total_cost (cash_balance p)), p)
      else
        let p1 = p\<lparr>cash_balance := cash_balance p - total_cost\<rparr> in
        (case map_of (positions p1) symb of
           Some existing_pos \<Rightarrow>
             let total_quantity = quantity existing_pos + q;
                 total_cost_basis = of_int (quantity existing_pos) * avg_cost existing_pos + of_int q * price
             in if total_quantity = 0 then Inl (ZeroDivisionError, p1)
                else Inr (p1\<lparr>positions :=
                       AList.update symb
                         (existing_pos\<lparr>quantity := total_quantity,
                                        avg_cost := total_cost_basis / of_int total_quantity\<rparr>)
                         (positions p1)\<rparr>)
         | None \<Rightarrow>
             Inr (p1\<lparr>positions :=
                    AList.update symb
                      \<lparr>symbol = symb, quantity = q, avg_cost = price, current_price = price,
                       last_updated = now\<rparr>
                      (positions p1)\<rparr>)))"

definition sell_stock ::
  "string \<Rightarrow> int \<Rightarrow> real \<Rightarrow> real \<Rightarrow> string \<Rightarrow> portfolio \<Rightarrow> (error \<times> portfolio) + portfolio" where
  "sell_stock symb q price commission model_name p =
     (case map_of (positions p) symb of
        None \<Rightarrow> Inl (ValueError (MsgNoPosition symb), p)
      | Some pos \<Rightarrow>
          if quantity pos < q
          then Inl (ValueError (MsgInsufficientShares q (quantity pos)), p)
          else
            let realized_pnl = (price - avg_cost pos) * of_int q - commission;
                proceeds = of_int q * price - commission;
                pos' = pos\<lparr>quantity := quantity pos - q\<rparr>;
                ps1 = AList.update symb pos' (positions p);
                ps2 = (if quantity pos' = 0 then AList.delete symb ps1 else ps1);
                th = trade_history p;
                th' = (if th \<noteq> [] then th[length th - 1 := (last th)\<lparr>pnl := realized_pnl\<rparr>] else th)
            in Inr (p\<lparr>cash_balance := cash_balance p + proceeds, positions := ps2,
                      trade_history := th'\<rparr>))"

definition update_position ::
  "string \<Rightarrow> string \<Rightarrow> int \<Rightarrow> real \<Rightarrow> string \<Rightarrow> int \<Rightarrow> portfolio \<Rightarrow> (error \<times> portfolio) + portfolio" where
  "update_position symb action q price model_name now p =
     (let commission = portfolio_calculate_commission q price;
          r = (if lower action = ''buy'' then buy_stock symb q price commission model_name now p
               else if lower action = ''sell'' then sell_stock symb q price commission model_name p
               else Inr p)
      in case r of
           Inl e \<Rightarrow> Inl e
         | Inr p1 \<Rightarrow>
             Inr (p1\<lparr>trade_history := trade_history p1 @
                   [\<lparr>tr_timestamp = now, tr_symbol = symb, tr_action = action, tr_quantity = q,
                     tr_price = Some price, tr_commission = commission, pnl = 0,
                     tr_model_name = model_name, tr_reason = ''''\<rparr>]\<rparr>))"

text \<open>\<^verbatim>\<open>get_status\<close>, with the fields the risk checks read. The division by the initial
  capital in \<^verbatim>\<open>total_return\<close> raises when the capital is zero.\<close>

definition market_value :: "position \<Rightarrow> real" where
  "market_value pos = of_int (quantity pos) * current_price pos"

definition unrealized_pnl :: "position \<Rightarrow> real" where
  "unrealized_pnl pos = (current_price pos - avg_cost pos) * of_int (quantity pos)"

record portfolio_status =
  st_cash_balance :: real
  st_positions_value :: real
  st_total_value :: real
  st_total_return :: real
  st_unrealized_pnl :: real
  st_realized_pnl :: real
  st_positions_count :: nat
  st_trades_count :: nat

definition get_status :: "portfolio \<Rightarrow> error + portfolio_status" where
  "get_status p =
     (let positions_value = sum_list (map (market_value \<circ> snd) (positions p));
          total_value = cash_balance p + positions_value
      in if initial_capital p = 0 then Inl ZeroDivisionError
         else Inr \<lparr>st_cash_balance = cash_balance p,
                   st_positions_value = positions_value,
                   st_total_value = total_value,
                   st_total_return = (total_value - initial_capital p) / initial_capital p,
                   st_unrealized_pnl = sum_list (map (unrealized_pnl \<circ> snd) (positions p)),
                   st_realized_pnl = sum_list (map pnl (trade_history p)),
                   st_positions_count = length (positions p),
                   st_trades_count = length (trade_history p)\<rparr>)"

definition get_position :: "portfolio \<Rightarrow> string \<Rightarrow> position option" where
  "get_position p symb = map_of (positions p) symb"

text \<open>\<^verbatim>\<open>get_trade_history(model_name, limit)\<close>: the slice \<^verbatim>\<open>trades[-limit:]\<close> for a positive
  \<open>limit\<close>, as every caller passes.\<close>

definition get_trade_history :: "portfolio \<Rightarrow> string \<Rightarrow> nat \<Rightarrow> trade_record list" where
  "get_trade_history p model_name limit =
     (let trades = (if model_name \<noteq> [] then filter (\<lambda>t. tr_model_name t = model_name) (trade_history p)
                    else trade_history p)
      in drop (length trades - limit) trades)"

section \<open>The risk gate: \<^verbatim>\<open>core/risk_manager.py\<close>\<close>

record decision =
  d_symbol :: string
  d_action :: string
  d_quantity :: int
  d_price :: "real option"
  d_reason :: string
  confidence :: real
  stop_loss :: "real option"
  take_profit :: "real option"

record risk_check_result =
  approved :: bool
  rc_reason :: message
  adjusted_quantity :: int
  risk_score :: real
  warnings :: "message list"

text \<open>The dataclass defaults of \<^verbatim>\<open>RiskCheckResult\<close>.\<close>

definition RiskCheckResult :: "bool \<Rightarrow> risk_check_result" where
  "RiskCheckResult a = \<lparr>approved = a, rc_reason = MsgNone, adjusted_quantity = 0, risk_score = 0,
                         warnings = []\<rparr>"

record settings =
  INITIAL_CAPITAL :: real
  MAX_POSITION_SIZE :: real
  max_daily_loss :: real
  correlation_threshold :: real

text \<open>\<^verbatim>\<open>config/settings.py\<close> without environment overrides.\<close>

definition Settings :: settings where
  "Settings = \<lparr>INITIAL_CAPITAL = 10000, MAX_POSITION_SIZE = 1 / 10, max_daily_loss = 5 / 100,
               correlation_threshold = 7 / 10\<rparr>"

record risk_manager =
  rm_settings :: settings
  correlation_matrix :: "(string \<times> real) list"
  volatility_data :: "(string \<times> real) list"
  rm_is_initialized :: bool

definition RiskManager :: risk_manager where
  "RiskManager = \<lparr>rm_settings = Settings, correlation_matrix = [], volatility_data = [],
                  rm_is_initialized = False\<rparr>"

text \<open>\<^verbatim>\<open>decision.price or 100.0\<close>: \<^verbatim>\<open>None\<close> and \<^verbatim>\<open>0.0\<close> are both falsy.\<close>

definition estimated_price :: "decision \<Rightarrow> real" where
  "estimated_price d = (case d_price d of None \<Rightarrow> 100 | Some x \<Rightarrow> if x = 0 then 100 else x)"

definition check_cash_availability :: "decision \<Rightarrow> portfolio \<Rightarrow> risk_check_result" where
  "check_cash_availability d p =
     (if lower (d_action d) \<noteq> ''buy''
      then (RiskCheckResult True)\<lparr>adjusted_quantity := d_quantity d\<rparr>
      else
        let total_cost = of_int (d_quantity d) * estimated_price d * (101 / 100) in
        if total_cost > cash_balance p
        then
          let max_quantity = py_int (cash_balance p / (estimated_price d * (101 / 100))) in
          if max_quantity = 0
          then (RiskCheckResult False)\<lparr>rc_reason := MsgInsufficientFunds total_cost (cash_balance p)\<rparr>
          else (RiskCheckResult True)\<lparr>adjusted_quantity := max_quantity,
                                        warnings := [MsgQuantityAdjusted max_quantity]\<rparr>
        else (RiskCheckResult True)\<lparr>adjusted_quantity := d_quantity d\<rparr>)"

definition check_position_limits :: "risk_manager \<Rightarrow> decision \<Rightarrow> portfolio \<Rightarrow> error + risk_check_result" where
  "check_position_limits rm d p =
     (let current_quantity = (case get_position p (d_symbol d) of Some pos \<Rightarrow> quantity pos | None \<Rightarrow> 0);
          new_quantity = (if lower (d_action d) = ''buy'' then current_quantity + d_quantity d
                          else current_quantity - d_quantity d)
      in case get_status p of
           Inl e \<Rightarrow> Inl e
         | Inr portfolio_status \<Rightarrow>
             let total_value = st_total_value portfolio_status;
                 position_value = of_int new_quantity * estimated_price d;
                 position_weight = (if total_value > 0 then position_value / total_value else 0);
                 max_position_size = MAX_POSITION_SIZE (rm_settings rm)
             in if position_weight > max_position_size
                then
                  let max_value = total_value * max_position_size;
                      max_quantity = py_int (max_value / estimated_price d);
                      adjusted = (if lower (d_action d) = ''buy'' then max 0 (max_quantity - current_quantity)
                                  else d_quantity d)
                  in Inr ((RiskCheckResult True)\<lparr>adjusted_quantity := adjusted,
                            warnings := [MsgPositionOverLimit position_weight max_position_size adjusted],
                            risk_score := 3 / 10\<rparr>)
                else Inr ((RiskCheckResult True)\<lparr>adjusted_quantity := d_quantity d\<rparr>))"

definition date :: "int \<Rightarrow> int" where
  "date t = t div 86400"

definition check_daily_loss_limit :: "risk_manager \<Rightarrow> portfolio \<Rightarrow> int \<Rightarrow> error + risk_check_result" where
  "check_daily_loss_limit rm p now =
     (let today = date now;
          today_trades = filter (\<lambda>t. date (tr_timestamp t) = today) (get_trade_history p [] 100);
          today_pnl = sum_list (map pnl today_trades)
      in case get_status p of
           Inl e \<Rightarrow> Inl e
         | Inr portfolio_status \<Rightarrow>
             let unrealized = st_unrealized_pnl portfolio_status;
                 total_daily_pnl = today_pnl + (if unrealized < 0 then unrealized else 0);
                 max_loss_amount = initial_capital p * max_daily_loss (rm_settings rm)
             in if \<bar>total_daily_pnl\<bar> > max_loss_amount
                then Inr ((RiskCheckResult False)\<lparr>rc_reason := MsgDailyLossExceeded \<bar>total_daily_pnl\<bar> max_loss_amount\<rparr>)
                else if \<bar>total_daily_pnl\<bar> > max_loss_amount * (8 / 10)
                then Inr ((RiskCheckResult True)\<lparr>warnings := [MsgNearDailyLoss \<bar>total_daily_pnl\<bar> max_loss_amount]\<rparr>)
                else Inr (RiskCheckResult True))"

definition check_concentration_risk :: "decision \<Rightarrow> portfolio \<Rightarrow> risk_check_result" where
  "check_concentration_risk d p =
     (if length (positions p) < 5
      then (RiskCheckResult True)\<lparr>warnings := [MsgConcentrated], risk_score := 2 / 10\<rparr>
      else RiskCheckResult True)"

definition get_correlation :: "risk_manager \<Rightarrow> string \<Rightarrow> string \<Rightarrow> real" where
  "get_correlation rm symbol1 symbol2 =
     (case map_of (correlation_matrix rm) (symbol1 @ ''_'' @ symbol2) of Some c \<Rightarrow> c | None \<Rightarrow> 0)"

definition get_volatility :: "risk_manager \<Rightarrow> string \<Rightarrow> real" where
  "get_volatility rm symb = (case map_of (volatility_data rm) symb of Some v \<Rightarrow> v | None \<Rightarrow> 3 / 10)"

definition check_correlation_risk :: "risk_manager \<Rightarrow> decision \<Rightarrow> portfolio \<Rightarrow> risk_check_result" where
  "check_correlation_risk rm d p =
     (let threshold = correlation_threshold (rm_settings rm);
          high_correlation_count =
            length (filter (\<lambda>s. get_correlation rm (d_symbol d) s > threshold) (map fst (positions p)))
      in if high_correlation_count > 3
         then (RiskCheckResult True)\<lparr>warnings := [MsgCorrelated high_correlation_count threshold],
                                       risk_score := 2 / 10\<rparr>
         else RiskCheckResult True)"

definition check_volatility_risk :: "risk_manager \<Rightarrow> decision \<Rightarrow> portfolio \<Rightarrow> risk_check_result" where
  "check_volatility_risk rm d p =
     (let volatility = get_volatility rm (d_symbol d)
      in if volatility > 4 / 10
         then (RiskCheckResult True)\<lparr>warnings := [MsgVolatile (d_symbol d) volatility], risk_score := 1 / 10\<rparr>
         else RiskCheckResult True)"

definition calculate_optimal_position_size :: "decision \<Rightarrow> portfolio \<Rightarrow> real \<Rightarrow> int" where
  "calculate_optimal_position_size d p score =
     (let base_quantity = d_quantity d;
          adjusted = (if score > 1 / 2
                      then py_int (of_int base_quantity * max (1 / 2) (1 - score))
                      else base_quantity)
      in max 1 adjusted)"

definition check_trade_risk :: "risk_manager \<Rightarrow> decision \<Rightarrow> portfolio \<Rightarrow> int \<Rightarrow> error + risk_check_result" where
  "check_trade_risk rm d p now =
     (let cash_check = check_cash_availability d p in
      if \<not> approved cash_check then Inr cash_check
      else case check_position_limits rm d p of
        Inl e \<Rightarrow> Inl e
      | Inr position_check \<Rightarrow>
          if \<not> approved position_check then Inr position_check
          else case check_daily_loss_limit rm p now of
            Inl e \<Rightarrow> Inl e
          | Inr daily_loss_check \<Rightarrow>
              if \<not> approved daily_loss_check then Inr daily_loss_check
              else
                let concentration_check = check_concentration_risk d p;
                    correlation_check = check_correlation_risk rm d p;
                    volatility_check = check_volatility_risk rm d p;
                    score = 0 + risk_score position_check + risk_score concentration_check
                              + risk_score correlation_check + risk_score volatility_check;
                    adjusted = calculate_optimal_position_size d p score
                in Inr \<lparr>approved = True, rc_reason = MsgRiskPassed, adjusted_quantity = adjusted,
                        risk_score = score,
                        warnings = warnings position_check @ warnings daily_loss_check
                                   @ warnings concentration_check @ warnings correlation_check
                                   @ warnings volatility_check\<rparr>)"

section \<open>The order executor: \<^verbatim>\<open>core/order_manager.py\<close>\<close>

datatype order_status = PENDING | SUBMITTED | PARTIALLY_FILLED | FILLED | CANCELLED | REJECTED | EXPIRED

datatype order_type = MARKET | LIMIT | STOP | STOP_LIMIT

record order =
  order_id :: string
  o_symbol :: string
  o_action :: string
  o_quantity :: int
  order_type :: order_type
  o_price :: "real option"
  stop_price :: "real option"
  status :: order_status
  created_at :: int
  updated_at :: int
  filled_quantity :: int
  avg_fill_price :: real
  o_commission :: real
  o_model_name :: string
  o_reason :: string

record fill =
  fill_id :: string
  f_order_id :: string
  f_symbol :: string
  f_quantity :: int
  f_price :: real
  f_timestamp :: int
  f_commission :: real

record trade_result =
  success :: bool
  r_order_id :: "string option"
  executed_price :: "real option"
  executed_quantity :: int
  commission :: real
  error_message :: message

text \<open>The dataclass defaults of \<^verbatim>\<open>TradeResult\<close>.\<close>

definition TradeResult :: "bool \<Rightarrow> trade_result" where
  "TradeResult s = \<lparr>success = s, r_order_id = None, executed_price = None, executed_quantity = 0,
                     commission = 0, error_message = MsgNone\<rparr>"

text \<open>
  The orders are objects that the dictionary \<^verbatim>\<open>orders\<close> holds under their own
  \<^verbatim>\<open>order_id\<close>; the dictionary is the store and an order id is the reference to an order.
  The cache maps a symbol to a price and the time it was stored.
\<close>

record order_manager =
  orders :: "(string \<times> order) list"
  fills :: "fill list"
  om_is_initialized :: bool
  simulation_mode :: bool
  market_data_cache :: "(string \<times> real \<times> int) list"

definition OrderManager :: order_manager where
  "OrderManager = \<lparr>orders = [], fills = [], om_is_initialized = False, simulation_mode = True,
                   market_data_cache = []\<rparr>"

definition om_initialize :: "order_manager \<Rightarrow> order_manager" where
  "om_initialize om = om\<lparr>simulation_mode := True, om_is_initialized := True\<rparr>"

text \<open>
  What an operation draws from outside: the clock, \<^verbatim>\<open>random.uniform(-0.02, 0.02)\<close>, and the
  two \<^verbatim>\<open>uuid.uuid4()\<close> strings for the order and for the fill.
\<close>

record env =
  e_now :: int
  e_rnd :: real
  e_order_id :: string
  e_fill_id :: string

definition base_prices :: "(string \<times> real) list" where
  "base_prices = [(''AAPL'', 150), (''MSFT'', 300), (''GOOGL'', 2500), (''AMZN'', 3000),
                  (''TSLA'', 200), (''META'', 250), (''NVDA'', 400), (''NFLX'', 400)]"

text \<open>\<^verbatim>\<open>_get_current_price\<close>. \<^verbatim>\<open>timedelta.seconds\<close> is the seconds component of the
  normalised difference, a number below 86400. Nothing in the \<^verbatim>\<open>try\<close> block raises, so the
  result is never \<^verbatim>\<open>None\<close>; the option is kept because the callers test for it.\<close>

definition get_current_price :: "order_manager \<Rightarrow> string \<Rightarrow> env \<Rightarrow> real option \<times> order_manager" where
  "get_current_price om symb e =
     (let fresh =
            (let base_price = (case map_of base_prices symb of Some b \<Rightarrow> b | None \<Rightarrow> 100);
                 price = base_price * (1 + e_rnd e)
             in (Some price,
                 om\<lparr>market_data_cache := AList.update symb (price, e_now e) (market_data_cache om)\<rparr>))
      in case map_of (market_data_cache om) symb of
           Some (price, timestamp) \<Rightarrow>
             if (e_now e - timestamp) mod 86400 < 300 then (Some price, om) else fresh
         | None \<Rightarrow> fresh)"

definition order_calculate_commission :: "int \<Rightarrow> real \<Rightarrow> real" where
  "order_calculate_commission q price =
     (let per_share_fee = of_int q * (5 / 1000);
          min_fee = 1;
          max_fee = of_int q * price * (5 / 1000);
          commission = max min_fee (min per_share_fee max_fee)
      in round2 commission)"

definition create_order :: "order_manager \<Rightarrow> decision \<Rightarrow> env \<Rightarrow> order \<times> order_manager" where
  "create_order om d e =
     (let ot = (if d_price d = None then MARKET else LIMIT);
          order = \<lparr>order_id = e_order_id e, o_symbol = d_symbol d, o_action = d_action d,
                   o_quantity = d_quantity d, order_type = ot, o_price = d_price d,
                   stop_price = stop_loss d, status = PENDING, created_at = e_now e,
                   updated_at = e_now e, filled_quantity = 0, avg_fill_price = 0, o_commission = 0,
                   o_model_name = '''', o_reason = d_reason d\<rparr>
      in (order, om\<lparr>orders := AList.update (e_order_id e) order (orders om)\<rparr>))"

text \<open>Writing a changed order object back to the store.\<close>

definition store_order :: "order \<Rightarrow> order_manager \<Rightarrow> order_manager" where
  "store_order order om = om\<lparr>orders := AList.update (order_id order) order (orders om)\<rparr>"

text \<open>The common tail of \<^verbatim>\<open>_simulate_order_execution\<close> and the whole of
  \<^verbatim>\<open>_fill_limit_order\<close>: the order becomes FILLED and a fill is appended.\<close>

definition fill_order :: "order_manager \<Rightarrow> order \<Rightarrow> real \<Rightarrow> env \<Rightarrow> real \<times> order_manager" where
  "fill_order om order fill_price e =
     (let c = order_calculate_commission (o_quantity order) fill_price;
          order' = order\<lparr>status := FILLED, filled_quantity := o_quantity order,
                         avg_fill_price := fill_price, o_commission := c, updated_at := e_now e\<rparr>;
          f = \<lparr>fill_id = e_fill_id e, f_order_id = order_id order, f_symbol = o_symbol order,
               f_quantity = o_quantity order, f_price = fill_price, f_timestamp = e_now e,
               f_commission = c\<rparr>
      in (c, (store_order order' om)\<lparr>fills := fills om @ [f]\<rparr>))"

definition fill_limit_order :: "order_manager \<Rightarrow> order \<Rightarrow> real \<Rightarrow> env \<Rightarrow> order_manager" where
  "fill_limit_order om order fill_price e = snd (fill_order om order fill_price e)"

text \<open>\<^verbatim>\<open>_simulate_order_execution\<close>. Comparing the quote with a missing limit price raises
  \<^verbatim>\<open>TypeError\<close>; the comparison is reached only when the action selects it.\<close>

definition simulate_order_execution ::
  "order_manager \<Rightarrow> order \<Rightarrow> env \<Rightarrow> (error \<times> order_manager) + (trade_result \<times> order_manager)" where
  "simulate_order_execution om order e =
     (case get_current_price om (o_symbol order) e of
        (None, om1) \<Rightarrow>
          Inr ((TradeResult False)\<lparr>error_message := MsgNoQuote (o_symbol order)\<rparr>,
               store_order (order\<lparr>status := REJECTED\<rparr>) om1)
      | (Some cp, om1) \<Rightarrow>
          let filled = (\<lambda>execution_price.
                 case fill_order om1 order execution_price e of
                   (c, om2) \<Rightarrow>
                     Inr ((TradeResult True)\<lparr>r_order_id := Some (order_id order),
                            executed_price := Some execution_price,
                            executed_quantity := o_quantity order, commission := c\<rparr>, om2));
              waiting = Inr ((TradeResult True)\<lparr>r_order_id := Some (order_id order),
                               executed_quantity := 0, error_message := MsgLimitSubmitted\<rparr>,
                             store_order (order\<lparr>status := SUBMITTED\<rparr>) om1)
          in if order_type order = MARKET
             then filled (if lower (o_action order) = ''buy'' then cp * (1001 / 1000) else cp * (999 / 1000))
             else if order_type order = LIMIT
             then (if lower (o_action order) = ''buy''
                   then (case o_price order of
                           None \<Rightarrow> Inl (TypeError, om1)
                         | Some lp \<Rightarrow> if cp \<le> lp then filled lp else waiting)
                   else if lower (o_action order) = ''sell''
                   then (case o_price order of
                           None \<Rightarrow> Inl (TypeError, om1)
                         | Some lp \<Rightarrow> if cp \<ge> lp then filled lp else waiting)
                   else waiting)
             else filled cp)"

definition execute_real_order :: "order_manager \<Rightarrow> order \<Rightarrow> trade_result \<times> order_manager" where
  "execute_real_order om order =
     ((TradeResult False)\<lparr>error_message := MsgRealTradingUnimplemented\<rparr>, om)"

text \<open>\<^verbatim>\<open>_submit_order\<close>: an exception of the execution rejects the order.\<close>

definition submit_order :: "order_manager \<Rightarrow> order \<Rightarrow> env \<Rightarrow> trade_result \<times> order_manager" where
  "submit_order om order e =
     (if simulation_mode om
      then (case simulate_order_execution om order e of
              Inr r \<Rightarrow> r
            | Inl (err, om1) \<Rightarrow>
                ((TradeResult False)\<lparr>error_message := MsgOrderFailed\<rparr>,
                 store_order (order\<lparr>status := REJECTED, updated_at := e_now e\<rparr>) om1))
      else execute_real_order om order)"

definition place_order :: "order_manager \<Rightarrow> decision \<Rightarrow> env \<Rightarrow> trade_result \<times> order_manager" where
  "place_order om d e = (case create_order om d e of (order, om1) \<Rightarrow> submit_order om1 order e)"

definition cancel_order :: "order_manager \<Rightarrow> string \<Rightarrow> int \<Rightarrow> bool \<times> order_manager" where
  "cancel_order om oid now =
     (case map_of (orders om) oid of
        None \<Rightarrow> (False, om)
      | Some order \<Rightarrow>
          if status order \<in> set [FILLED, CANCELLED, REJECTED] then (False, om)
          else (True, om\<lparr>orders := AList.update oid (order\<lparr>status := CANCELLED, updated_at := now\<rparr>) (orders om)\<rparr>))"

text \<open>\<^verbatim>\<open>get_orders\<close>: filtered, then sorted by creation time, newest first; the sort is
  stable. An empty symbol counts as no filter.\<close>

definition get_orders :: "order_manager \<Rightarrow> string option \<Rightarrow> order_status option \<Rightarrow> order list" where
  "get_orders om symb st =
     (let os = map snd (orders om);
          os1 = (case symb of None \<Rightarrow> os | Some s \<Rightarrow> if s = [] then os else filter (\<lambda>x. o_symbol x = s) os);
          os2 = (case st of None \<Rightarrow> os1 | Some t \<Rightarrow> filter (\<lambda>x. status x = t) os1)
      in sort_key (\<lambda>x. - created_at x) os2)"

text \<open>One iteration of the loop of \<^verbatim>\<open>process_pending_orders\<close> on the order behind the
  reference \<open>oid\<close>; \<open>draw\<close> gives what the iteration draws from outside.\<close>

definition process_one ::
  "(string \<Rightarrow> env) \<Rightarrow> string \<Rightarrow> (error \<times> order_manager) + order_manager
     \<Rightarrow> (error \<times> order_manager) + order_manager" where
  "process_one draw oid acc =
     (case acc of
        Inl x \<Rightarrow> Inl x
      | Inr om \<Rightarrow>
          (case map_of (orders om) oid of
             None \<Rightarrow> Inr om
           | Some order \<Rightarrow>
               if order_type order = LIMIT
               then (case get_current_price om (o_symbol order) (draw oid) of
                       (None, om1) \<Rightarrow> Inr om1
                     | (Some cp, om1) \<Rightarrow>
                         if lower (o_action order) = ''buy''
                         then (case o_price order of
                                 None \<Rightarrow> Inl (TypeError, om1)
                               | Some lp \<Rightarrow>
                                   if cp \<le> lp then Inr (fill_limit_order om1 order lp (draw oid))
                                   else Inr om1)
                         else if lower (o_action order) = ''sell''
                         then (case o_price order of
                                 None \<Rightarrow> Inl (TypeError, om1)
                               | Some lp \<Rightarrow>
                                   if cp \<ge> lp then Inr (fill_limit_order om1 order lp (draw oid))
                                   else Inr om1)
                         else Inr om1)
               else Inr om))"

definition process_pending_orders ::
  "order_manager \<Rightarrow> (string \<Rightarrow> env) \<Rightarrow> (error \<times> order_manager) + order_manager" where
  "process_pending_orders om draw =
     foldl (\<lambda>acc oid. process_one draw oid acc) (Inr om)
       (map order_id (get_orders om None (Some SUBMITTED)))"

definition om_shutdown :: "order_manager \<Rightarrow> int \<Rightarrow> order_manager" where
  "om_shutdown om now =
     foldl (\<lambda>acc oid. snd (cancel_order acc oid now)) om
       (map order_id (get_orders om None (Some PENDING)))"

section \<open>The scheduler's step: \<^verbatim>\<open>core/trading_engine.py\<close>\<close>

record engine =
  eng_settings :: settings
  eng_portfolio :: portfolio
  eng_risk_manager :: risk_manager
  eng_order_manager :: order_manager

definition TradingEngine :: engine where
  "TradingEngine = \<lparr>eng_settings = Settings, eng_portfolio = Portfolio,
                    eng_risk_manager = RiskManager, eng_order_manager = OrderManager\<rparr>"

text \<open>\<^verbatim>\<open>TradingEngine.initialize\<close>; the risk manager fills its correlation and volatility
  tables with random numbers, which are parameters here.\<close>

definition engine_initialize ::
  "(string \<times> real) list \<Rightarrow> (string \<times> real) list \<Rightarrow> engine \<Rightarrow> engine" where
  "engine_initialize corr vol eng =
     eng\<lparr>eng_portfolio := initialize (INITIAL_CAPITAL (eng_settings eng)) (eng_portfolio eng),
         eng_risk_manager := (eng_risk_manager eng)\<lparr>correlation_matrix := corr, volatility_data := vol,
                                                   rm_is_initialized := True\<rparr>,
         eng_order_manager := om_initialize (eng_order_manager eng)\<rparr>"

text \<open>\<^verbatim>\<open>update_position\<close> when the engine passes \<^verbatim>\<open>None\<close> as the price, as it does for a
  limit order that was submitted without a fill: arithmetic on \<^verbatim>\<open>None\<close> raises
  \<^verbatim>\<open>TypeError\<close>; with an action other than buy and sell the record is appended first and
  formatting the price for the log line raises.\<close>

definition update_position_no_price ::
  "string \<Rightarrow> string \<Rightarrow> int \<Rightarrow> string \<Rightarrow> int \<Rightarrow> portfolio \<Rightarrow> error \<times> portfolio" where
  "update_position_no_price symb action q model_name now p =
     (let c = max (of_int q * (1 / 100)) 1 in
      if lower action = ''buy'' then (TypeError, p)
      else if lower action = ''sell''
      then (case map_of (positions p) symb of
              None \<Rightarrow> (ValueError (MsgNoPosition symb), p)
            | Some pos \<Rightarrow>
                if quantity pos < q then (ValueError (MsgInsufficientShares q (quantity pos)), p)
                else (TypeError, p))
      else (TypeError,
            p\<lparr>trade_history := trade_history p @
                [\<lparr>tr_timestamp = now, tr_symbol = symb, tr_action = action, tr_quantity = q,
                  tr_price = None, tr_commission = c, pnl = 0, tr_model_name = model_name,
                  tr_reason = ''''\<rparr>]\<rparr>))"

text \<open>\<^verbatim>\<open>execute_trade\<close>. Every exception is caught and becomes a failed result; the state
  keeps what was mutated before the exception.\<close>

definition execute_trade :: "engine \<Rightarrow> string \<Rightarrow> decision \<Rightarrow> env \<Rightarrow> trade_result \<times> engine" where
  "execute_trade eng model_name d e =
     (case check_trade_risk (eng_risk_manager eng) d (eng_portfolio eng) (e_now e) of
        Inl err \<Rightarrow> ((TradeResult False)\<lparr>error_message := MsgTradeFailed\<rparr>, eng)
      | Inr risk_check \<Rightarrow>
          if \<not> approved risk_check
          then ((TradeResult False)\<lparr>error_message := MsgRiskRejected (rc_reason risk_check)\<rparr>, eng)
          else
            let d' = (if adjusted_quantity risk_check \<noteq> d_quantity d
                      then d\<lparr>d_quantity := adjusted_quantity risk_check\<rparr> else d)
            in case place_order (eng_order_manager eng) d' e of
                 (result, om') \<Rightarrow>
                   let eng1 = eng\<lparr>eng_order_manager := om'\<rparr> in
                   if success result
                   then (case executed_price result of
                           Some price \<Rightarrow>
                             (case update_position (d_symbol d') (d_action d') (executed_quantity result)
                                     price '''' (e_now e) (eng_portfolio eng1) of
                                Inr p' \<Rightarrow> (result, eng1\<lparr>eng_portfolio := p'\<rparr>)
                              | Inl (err, p') \<Rightarrow>
                                  ((TradeResult False)\<lparr>error_message := MsgTradeFailed\<rparr>,
                                   eng1\<lparr>eng_portfolio := p'\<rparr>))
                         | None \<Rightarrow>
                             (case update_position_no_price (d_symbol d') (d_action d')
                                     (executed_quantity result) '''' (e_now e) (eng_portfolio eng1) of
                                (err, p') \<Rightarrow>
                                  ((TradeResult False)\<lparr>error_message := MsgTradeFailed\<rparr>,
                                   eng1\<lparr>eng_portfolio := p'\<rparr>)))
                   else (result, eng1))"

section \<open>Sequences of ledger updates\<close>

text \<open>The arguments of one call of \<^verbatim>\<open>update_position\<close>, and the clock at the call.\<close>

record update_call =
  uc_symbol :: string
  uc_action :: string
  uc_quantity :: int
  uc_price :: real
  uc_model_name :: string
  uc_now :: int

text \<open>Calls applied one after the other; the first exception ends the sequence.\<close>

fun apply_calls :: "portfolio \<Rightarrow> update_call list \<Rightarrow> (error \<times> portfolio) + portfolio" where
  "apply_calls p [] = Inr p"
| "apply_calls p (c # cs) =
     (case update_position (uc_symbol c) (uc_action c) (uc_quantity c) (uc_price c)
             (uc_model_name c) (uc_now c) p of
        Inl x \<Rightarrow> Inl x
      | Inr p' \<Rightarrow> apply_calls p' cs)"

text \<open>Calls applied one after the other by a caller that catches the exception of a failed
  call, as \<^verbatim>\<open>execute_trade\<close> does, and goes on with the ledger as the call left it.\<close>

fun run_calls :: "portfolio \<Rightarrow> update_call list \<Rightarrow> portfolio" where
  "run_calls p [] = p"
| "run_calls p (c # cs) =
     run_calls
       (case update_position (uc_symbol c) (uc_action c) (uc_quantity c) (uc_price c)
               (uc_model_name c) (uc_now c) p of
          Inl (err, p') \<Rightarrow> p'
        | Inr p' \<Rightarrow> p') cs"

definition ledger_invariant :: "portfolio \<Rightarrow> bool" where
  "ledger_invariant p \<longleftrightarrow>
     0 \<le> cash_balance p \<and> (\<forall>(s, pos) \<in> set (positions p). 0 < quantity pos)"

text \<open>A call with a positive quantity whose gross proceeds, if it is a sale, cover the
  commission the ledger charges.\<close>

definition covered_call :: "update_call \<Rightarrow> bool" where
  "covered_call c \<longleftrightarrow>
     0 < uc_quantity c \<and>
     (lower (uc_action c) = ''sell'' \<longrightarrow>
        portfolio_calculate_commission (uc_quantity c) (uc_price c) \<le> of_int (uc_quantity c) * uc_price c)"

definition buy_call :: "string \<Rightarrow> int \<Rightarrow> real \<Rightarrow> update_call" where
  "buy_call s q price = \<lparr>uc_symbol = s, uc_action = ''buy'', uc_quantity = q, uc_price = price,
                         uc_model_name = '''', uc_now = 0\<rparr>"

definition sell_call :: "string \<Rightarrow> int \<Rightarrow> real \<Rightarrow> update_call" where
  "sell_call s q price = \<lparr>uc_symbol = s, uc_action = ''sell'', uc_quantity = q, uc_price = price,
                          uc_model_name = '''', uc_now = 0\<rparr>"

section \<open>Sample inputs\<close>

definition mk_decision :: "string \<Rightarrow> string \<Rightarrow> int \<Rightarrow> real option \<Rightarrow> decision" where
  "mk_decision s a q pr = \<lparr>d_symbol = s, d_action = a, d_quantity = q, d_price = pr, d_reason = '''',
         confidence = 0, stop_loss = None, take_profit = None\<rparr>"

definition mk_env :: "int \<Rightarrow> string \<Rightarrow> string \<Rightarrow> env" where
  "mk_env t oid fid = \<lparr>e_now = t, e_rnd = 0, e_order_id = oid, e_fill_id = fid\<rparr>"

text \<open>A ledger holding 50 shares bought at 100, and a risk manager that knows the share as
  volatile.\<close>

definition holding_portfolio :: portfolio where
  "holding_portfolio = projr (apply_calls (initialize 10000 Portfolio) [buy_call ''AAPL'' 50 100])"

definition volatile_manager :: risk_manager where
  "volatile_manager = RiskManager\<lparr>volatility_data := [(''AAPL'', 1 / 2)]\<rparr>"

text \<open>A freshly initialized engine after a limit buy of 2 shares at 4999.50, which costs the
  whole capital of 10000.\<close>

definition engine_after_buy :: engine where
  "engine_after_buy = snd (execute_trade (engine_initialize [] [] TradingEngine) ''m''
      (mk_decision ''XYZ'' ''buy'' 2 (Some (9999 / 2))) (mk_env 0 ''o1'' ''f1''))"

section \<open>Runs of the order manager\<close>

text \<open>
  The operations that change the order store, as events. An event carries what the
  operation draws from outside. \<^verbatim>\<open>uuid4\<close> never repeats an identifier: a run is considered
  only if every placed order gets an identifier that is not in the store (\<open>fresh_ids\<close>).
  \<^verbatim>\<open>process_pending_orders\<close> can end by an exception; the store it leaves is the next state.
\<close>

datatype om_event =
    EvInitialize
  | EvPlaceOrder decision env
  | EvCancelOrder string int
  | EvProcessPending "string \<Rightarrow> env"
  | EvShutdown int

definition state_of :: "(error \<times> order_manager) + order_manager \<Rightarrow> order_manager" where
  "state_of r = (case r of Inl (err, om) \<Rightarrow> om | Inr om \<Rightarrow> om)"

fun om_step :: "order_manager \<Rightarrow> om_event \<Rightarrow> order_manager" where
  "om_step om EvInitialize = om_initialize om"
| "om_step om (EvPlaceOrder d e) = snd (place_order om d e)"
| "om_step om (EvCancelOrder oid now) = snd (cancel_order om oid now)"
| "om_step om (EvProcessPending draw) = state_of (process_pending_orders om draw)"
| "om_step om (EvShutdown now) = om_shutdown om now"

fun fresh_ids :: "order_manager \<Rightarrow> om_event list \<Rightarrow> bool" where
  "fresh_ids om [] = True"
| "fresh_ids om (ev # evs) =
     ((case ev of EvPlaceOrder d e \<Rightarrow> e_order_id e \<notin> fst ` set (orders om) | _ \<Rightarrow> True)
      \<and> fresh_ids (om_step om ev) evs)"

definition om_run :: "order_manager \<Rightarrow> om_event list \<Rightarrow> order_manager" where
  "om_run om evs = foldl om_step om evs"

text \<open>The store holds at most one order under an identifier, and every order under its
  own.\<close>

definition keyed :: "(string \<times> order) list \<Rightarrow> bool" where
  "keyed al \<longleftrightarrow> distinct (map fst al) \<and> (\<forall>(k, x) \<in> set al. order_id x = k)"

text \<open>How the status of one order may differ between two moments: FILLED, CANCELLED and
  REJECTED stay; EXPIRED stays or becomes CANCELLED; nothing becomes EXPIRED.\<close>

definition status_follows :: "order_status \<Rightarrow> order_status \<Rightarrow> bool" where
  "status_follows a b \<longleftrightarrow>
     (a \<in> {FILLED, CANCELLED, REJECTED} \<longrightarrow> b = a)
     \<and> (a = EXPIRED \<longrightarrow> b \<in> {EXPIRED, CANCELLED})
     \<and> (b = EXPIRED \<longrightarrow> a = EXPIRED)"

text \<open>The later store \<open>om'\<close> is well keyed, keeps every order of \<open>om\<close>, and the status of each
  has moved as \<open>status_follows\<close> allows.\<close>

definition step_ok :: "order_manager \<Rightarrow> order_manager \<Rightarrow> bool" where
  "step_ok om om' \<longleftrightarrow>
     keyed (orders om') \<and>
     (\<forall>k x. map_of (orders om) k = Some x \<longrightarrow>
        (\<exists>y. map_of (orders om') k = Some y \<and> status_follows (status x) (status y)))"

text \<open>The store \<open>s\<close> is the store of \<open>om\<close> with the entry \<open>k\<close> written, by an order that is not
  EXPIRED.\<close>

definition overwrites :: "order_manager \<Rightarrow> string \<Rightarrow> order_manager \<Rightarrow> bool" where
  "overwrites om k s \<longleftrightarrow>
     (\<exists>y. order_id y = k \<and> status y \<noteq> EXPIRED \<and> orders s = AList.update k y (orders om))"

text \<open>The later store keeps every order as it was, except that orders referenced in \<open>L\<close> may
  have been FILLED.\<close>

definition fills_only :: "string list \<Rightarrow> order_manager \<Rightarrow> order_manager \<Rightarrow> bool" where
  "fills_only L om om' \<longleftrightarrow>
     keyed (orders om') \<and>
     (\<forall>k x. map_of (orders om) k = Some x \<longrightarrow>
        (\<exists>y. map_of (orders om') k = Some y \<and> (y = x \<or> k \<in> set L \<and> status y = FILLED)))"

text \<open>No order of the store is EXPIRED.\<close>

definition unexpired :: "(string \<times> order) list \<Rightarrow> bool" where
  "unexpired al \<longleftrightarrow> (\<forall>(k, x) \<in> set al. status x \<noteq> EXPIRED)"

text \<open>A run of events after a first order was placed.\<close>

definition later_events :: "om_event list" where
  "later_events = [EvCancelOrder ''o1'' 1, EvProcessPending (\<lambda>oid. mk_env 2 ''o2'' ''f2''),
                   EvPlaceOrder (mk_decision ''AAPL'' ''sell'' 5 (Some 500)) (mk_env 3 ''o3'' ''f3''),
                   EvProcessPending (\<lambda>oid. mk_env 4 ''o4'' ''f4''), EvShutdown 5]"

section \<open>Properties\<close>

lemmas risk_defs = check_trade_risk_def check_cash_availability_def check_position_limits_def
  check_daily_loss_limit_def check_concentration_risk_def check_correlation_risk_def
  check_volatility_risk_def calculate_optimal_position_size_def get_status_def get_position_def
  get_trade_history_def get_correlation_def get_volatility_def estimated_price_def
  RiskCheckResult_def RiskManager_def Settings_def date_def py_int_def market_value_def
  unrealized_pnl_def mk_decision_def

lemmas ledger_defs = update_position_def buy_stock_def sell_stock_def
  initialize_def Portfolio_def lower_def lower_char_def portfolio_calculate_commission_def
  buy_call_def sell_call_def

lemmas order_defs = place_order_def create_order_def submit_order_def simulate_order_execution_def
  fill_order_def store_order_def get_current_price_def order_calculate_commission_def
  round2_def round_half_even_def TradeResult_def OrderManager_def om_initialize_def base_prices_def
  mk_decision_def mk_env_def lower_def lower_char_def

subsection \<open>Actions other than buy and sell\<close>

text \<open>
  C10. For every action string that is neither \<^verbatim>\<open>'buy'\<close> nor \<^verbatim>\<open>'sell'\<close> once lowered (for
  example \<^verbatim>\<open>'hold'\<close>), \<open>update_position\<close> returns normally, leaves the cash balance and
  the positions unchanged, and appends exactly one trade record, which carries the
  commission computed from the quantity.
\<close>

theorem update_position_other_action:
  assumes "lower action \<noteq> ''buy''" and "lower action \<noteq> ''sell''"
  shows "\<exists>p' r. update_position symb action q price model_name now p = Inr p'
           \<and> cash_balance p' = cash_balance p
           \<and> positions p' = positions p
           \<and> trade_history p' = trade_history p @ [r]
           \<and> tr_action r = action \<and> tr_symbol r = symb \<and> tr_quantity r = q
           \<and> tr_commission r = portfolio_calculate_commission q price"
  using assms by (simp add: update_position_def)

theorem update_position_other_action_witness:
  "lower ''hold'' \<noteq> ''buy'' \<and> lower ''hold'' \<noteq> ''sell''
   \<and> (\<exists>p' r. update_position ''AAPL'' ''hold'' 10 150 ''m'' 0 (initialize 10000 Portfolio) = Inr p'
           \<and> cash_balance p' = cash_balance (initialize 10000 Portfolio)
           \<and> positions p' = positions (initialize 10000 Portfolio)
           \<and> trade_history p' = trade_history (initialize 10000 Portfolio) @ [r]
           \<and> tr_action r = ''hold'' \<and> tr_symbol r = ''AAPL'' \<and> tr_quantity r = 10
           \<and> tr_commission r = portfolio_calculate_commission 10 150)"
proof -
  have a: "lower ''hold'' \<noteq> ''buy''" by (simp add: lower_def lower_char_def)
  have b: "lower ''hold'' \<noteq> ''sell''" by (simp add: lower_def lower_char_def)
  show ?thesis
    using a b update_position_other_action [OF a b, of "''AAPL''" 10 150 "''m''" 0 "initialize 10000 Portfolio"]
    by simp
qed

subsection \<open>The ledger invariant\<close>

lemma set_update_subset: "set (AList.update k v al) \<subseteq> insert (k, v) (set al)"
  by (induction al) auto

lemma set_delete_subset: "set (AList.delete k al) \<subseteq> set al"
  by (simp add: AList.delete_eq)

lemma buy_stock_invariant:
  assumes "\<forall>(s, pos) \<in> set (positions p). 0 < quantity pos" and "0 < q"
    and "buy_stock symb q price com model_name now p = Inr p'"
  shows "0 \<le> cash_balance p' \<and> (\<forall>(s, pos) \<in> set (positions p'). 0 < quantity pos)"
proof (cases "map_of (positions p) symb")
  case None
  with assms(3) have c: "cash_balance p' = cash_balance p - (of_int q * price + com)"
    and le: "of_int q * price + com \<le> cash_balance p"
    and ps: "positions p' = AList.update symb \<lparr>symbol = symb, quantity = q, avg_cost = price,
                 current_price = price, last_updated = now\<rparr> (positions p)"
    by (auto simp: buy_stock_def Let_def split: if_splits)
  from ps assms(1,2) set_update_subset show ?thesis using c le by fastforce
next
  case (Some e)
  then have "(symb, e) \<in> set (positions p)" by (rule map_of_SomeD)
  with assms(1) have eq: "0 < quantity e" by auto
  from Some assms(3) have c: "cash_balance p' = cash_balance p - (of_int q * price + com)"
    and le: "of_int q * price + com \<le> cash_balance p"
    and ps: "positions p' = AList.update symb
               (e\<lparr>quantity := quantity e + q,
                  avg_cost := (of_int (quantity e) * avg_cost e + of_int q * price) / of_int (quantity e + q)\<rparr>)
               (positions p)"
    by (auto simp: buy_stock_def Let_def split: if_splits)
  from ps assms(1,2) eq set_update_subset show ?thesis using c le by fastforce
qed

lemma sell_stock_effect:
  assumes "\<forall>(s, pos) \<in> set (positions p). 0 < quantity pos"
    and "sell_stock symb q price com model_name p = Inr p'"
  shows "cash_balance p' = cash_balance p + (of_int q * price - com)
         \<and> (\<forall>(s, pos) \<in> set (positions p'). 0 < quantity pos)"
proof (cases "map_of (positions p) symb")
  case None
  with assms(2) show ?thesis by (simp add: sell_stock_def)
next
  case (Some e)
  with assms(2) have ge: "q \<le> quantity e" by (auto simp: sell_stock_def Let_def split: if_splits)
  let ?e = "e\<lparr>quantity := quantity e - q\<rparr>"
  from Some assms(2) ge have c: "cash_balance p' = cash_balance p + (of_int q * price - com)"
    and ps: "positions p' = (if quantity e - q = 0 then AList.delete symb (AList.update symb ?e (positions p))
                             else AList.update symb ?e (positions p))"
    by (auto simp: sell_stock_def Let_def split: if_splits)
  have "\<forall>(s, pos) \<in> set (positions p'). 0 < quantity pos"
  proof (cases "quantity e - q = 0")
    case True
    then have "positions p' = AList.delete symb (positions p)"
      using ps by (simp add: AList.delete_update_same)
    with assms(1) set_delete_subset show ?thesis by fastforce
  next
    case False
    with ge have "0 < quantity ?e" by simp
    moreover from False ps have "positions p' = AList.update symb ?e (positions p)" by simp
    ultimately show ?thesis using assms(1) set_update_subset by fastforce
  qed
  with c show ?thesis by simp
qed

lemma update_position_invariant:
  assumes "ledger_invariant p" and "covered_call c"
    and "update_position (uc_symbol c) (uc_action c) (uc_quantity c) (uc_price c)
           (uc_model_name c) (uc_now c) p = Inr p'"
  shows "ledger_invariant p'"
proof -
  let ?com = "portfolio_calculate_commission (uc_quantity c) (uc_price c)"
  from assms(1) have pos: "\<forall>(s, pos) \<in> set (positions p). 0 < quantity pos"
    and cash: "0 \<le> cash_balance p" by (simp_all add: ledger_invariant_def)
  consider (buy) "lower (uc_action c) = ''buy''"
    | (sell) "lower (uc_action c) \<noteq> ''buy''" "lower (uc_action c) = ''sell''"
    | (other) "lower (uc_action c) \<noteq> ''buy''" "lower (uc_action c) \<noteq> ''sell''" by blast
  then show ?thesis
  proof cases
    case buy
    with assms(3) obtain p1 where
      b: "buy_stock (uc_symbol c) (uc_quantity c) (uc_price c) ?com (uc_model_name c) (uc_now c) p = Inr p1"
      and e: "cash_balance p' = cash_balance p1" "positions p' = positions p1"
      by (auto simp: update_position_def Let_def split: sum.splits)
    from assms(2) have "0 < uc_quantity c" by (simp add: covered_call_def)
    from buy_stock_invariant [OF pos this b] e show ?thesis by (simp add: ledger_invariant_def)
  next
    case sell
    with assms(3) obtain p1 where
      b: "sell_stock (uc_symbol c) (uc_quantity c) (uc_price c) ?com (uc_model_name c) p = Inr p1"
      and e: "cash_balance p' = cash_balance p1" "positions p' = positions p1"
      by (auto simp: update_position_def Let_def split: sum.splits)
    from assms(2) sell have "?com \<le> of_int (uc_quantity c) * uc_price c" by (simp add: covered_call_def)
    with sell_stock_effect [OF pos b] e cash show ?thesis by (simp add: ledger_invariant_def)
  next
    case other
    with assms(3) have "cash_balance p' = cash_balance p" "positions p' = positions p"
      by (auto simp: update_position_def Let_def)
    with assms(1) show ?thesis by (simp add: ledger_invariant_def)
  qed
qed

lemma apply_calls_invariant:
  "ledger_invariant p \<Longrightarrow> \<forall>c \<in> set cs. covered_call c \<Longrightarrow> apply_calls p cs = Inr p' \<Longrightarrow> ledger_invariant p'"
proof (induction cs arbitrary: p)
  case Nil
  then show ?case by simp
next
  case (Cons c cs)
  from Cons.prems(3) obtain p1 where
    s: "update_position (uc_symbol c) (uc_action c) (uc_quantity c) (uc_price c)
           (uc_model_name c) (uc_now c) p = Inr p1" and r: "apply_calls p1 cs = Inr p'"
    by (auto split: sum.splits)
  from Cons.prems(1,2) s have "ledger_invariant p1" by (auto intro: update_position_invariant)
  with Cons.IH [OF _ _ r] Cons.prems(2) show ?case by simp
qed

text \<open>
  Where the invariant does hold: from a ledger with a cash balance of at least 0 whose
  positions all have a quantity above 0, through calls whose quantities are above 0 and
  whose sales' gross proceeds cover the commission. A failed call of this kind leaves the
  ledger as it was, so the invariant holds after every call, failed or not.
\<close>

lemma failed_covered_call_keeps_ledger:
  assumes "ledger_invariant p" and "covered_call c"
    and "update_position (uc_symbol c) (uc_action c) (uc_quantity c) (uc_price c)
           (uc_model_name c) (uc_now c) p = Inl (err, p')"
  shows "p' = p"
proof -
  let ?com = "portfolio_calculate_commission (uc_quantity c) (uc_price c)"
  from assms(2) have q: "0 < uc_quantity c" by (simp add: covered_call_def)
  consider (buy) "lower (uc_action c) = ''buy''"
    | (sell) "lower (uc_action c) \<noteq> ''buy''" "lower (uc_action c) = ''sell''"
    | (other) "lower (uc_action c) \<noteq> ''buy''" "lower (uc_action c) \<noteq> ''sell''" by blast
  then show ?thesis
  proof cases
    case buy
    with assms(3) have b: "buy_stock (uc_symbol c) (uc_quantity c) (uc_price c) ?com
        (uc_model_name c) (uc_now c) p = Inl (err, p')"
      by (auto simp: update_position_def Let_def split: sum.splits)
    show ?thesis
    proof (cases "map_of (positions p) (uc_symbol c)")
      case None
      with b show ?thesis by (auto simp: buy_stock_def Let_def split: if_splits)
    next
      case (Some e)
      then have "(uc_symbol c, e) \<in> set (positions p)" by (rule map_of_SomeD)
      with assms(1) have "0 < quantity e" by (auto simp: ledger_invariant_def)
      with q have "quantity e + uc_quantity c \<noteq> 0" by simp
      with Some b show ?thesis by (auto simp: buy_stock_def Let_def split: if_splits)
    qed
  next
    case sell
    with assms(3) have "sell_stock (uc_symbol c) (uc_quantity c) (uc_price c) ?com
        (uc_model_name c) p = Inl (err, p')"
      by (auto simp: update_position_def Let_def split: sum.splits)
    then show ?thesis by (auto simp: sell_stock_def Let_def split: option.splits if_splits)
  next
    case other
    with assms(3) show ?thesis by (simp add: update_position_def Let_def)
  qed
qed

lemma ledger_invariant_after_each_call:
  "ledger_invariant p \<Longrightarrow> \<forall>c \<in> set cs. covered_call c \<Longrightarrow> ledger_invariant (run_calls p cs)"
proof (induction cs arbitrary: p)
  case Nil
  then show ?case by simp
next
  case (Cons c cs)
  let ?r = "update_position (uc_symbol c) (uc_action c) (uc_quantity c) (uc_price c)
              (uc_model_name c) (uc_now c) p"
  from Cons.prems(2) have cc: "covered_call c" by simp
  have "ledger_invariant (case ?r of Inl (err, p') \<Rightarrow> p' | Inr p' \<Rightarrow> p')"
  proof (cases ?r)
    case (Inl a)
    obtain err p' where a: "a = (err, p')" by (cases a)
    with Inl failed_covered_call_keeps_ledger [OF Cons.prems(1) cc] have "p' = p" by simp
    with Inl a Cons.prems(1) show ?thesis by simp
  next
    case (Inr p')
    with update_position_invariant [OF Cons.prems(1) cc] show ?thesis by simp
  qed
  from Cons.IH [OF this] Cons.prems(2) show ?case by simp
qed

lemma first_trade_spends_capital:
  "execute_trade (engine_initialize [] [] TradingEngine) ''m''
      (mk_decision ''XYZ'' ''buy'' 2 (Some (9999 / 2))) (mk_env 0 ''o1'' ''f1'')
   = (\<lparr>success = True, r_order_id = Some ''o1'', executed_price = Some (9999 / 2),
       executed_quantity = 2, commission = 1, error_message = MsgNone\<rparr>,
      \<lparr>eng_settings = Settings,
       eng_portfolio =
         \<lparr>initial_capital = 10000, cash_balance = 0,
          positions = [(''XYZ'', \<lparr>symbol = ''XYZ'', quantity = 2, avg_cost = 9999 / 2,
                                 current_price = 9999 / 2, last_updated = 0\<rparr>)],
          trade_history =
            [\<lparr>tr_timestamp = 0, tr_symbol = ''XYZ'', tr_action = ''buy'', tr_quantity = 2,
              tr_price = Some (9999 / 2), tr_commission = 1, pnl = 0, tr_model_name = '''',
              tr_reason = ''''\<rparr>],
          is_initialized = True\<rparr>,
       eng_risk_manager = RiskManager\<lparr>rm_is_initialized := True\<rparr>,
       eng_order_manager =
         \<lparr>orders = [(''o1'', \<lparr>order_id = ''o1'', o_symbol = ''XYZ'', o_action = ''buy'',
               o_quantity = 2, order_type = LIMIT, o_price = Some (9999 / 2), stop_price = None,
               status = FILLED, created_at = 0, updated_at = 0, filled_quantity = 2,
               avg_fill_price = 9999 / 2, o_commission = 1, o_model_name = '''', o_reason = ''''\<rparr>)],
          fills = [\<lparr>fill_id = ''f1'', f_order_id = ''o1'', f_symbol = ''XYZ'', f_quantity = 2,
                    f_price = 9999 / 2, f_timestamp = 0, f_commission = 1\<rparr>],
          om_is_initialized = True, simulation_mode = True,
          market_data_cache = [(''XYZ'', 100, 0)]\<rparr>\<rparr>)"
  by (simp add: execute_trade_def engine_initialize_def TradingEngine_def risk_defs ledger_defs
      order_defs Let_def)

text \<open>
  C1 at a sale whose gross proceeds are below the commission. From a ledger of 100, buying
  99 shares at 1.00 costs \<open>99 + 1\<close> and leaves the cash at 0; selling one share at 0.50 is
  charged the minimum commission of 1.00, both calls of \<open>update_position\<close> return normally,
  and the cash balance is \<open>-0.50\<close>. The same happens through the pipeline: on a freshly
  initialized engine, \<open>execute_trade\<close> accepts a limit buy of 2 shares at 4999.50 and then
  a limit sell of 1 share at 0.50, and leaves the cash balance at \<open>-0.50\<close>. The purchase
  checks the balance before debiting; the sale credits \<open>quantity \<times> price - commission\<close>
  without a check.
\<close>

theorem sale_below_commission_overdraws:
  "\<not> isl (apply_calls (initialize 100 Portfolio) [buy_call ''XYZ'' 99 1, sell_call ''XYZ'' 1 (1 / 2)])
   \<and> cash_balance (projr (apply_calls (initialize 100 Portfolio)
        [buy_call ''XYZ'' 99 1, sell_call ''XYZ'' 1 (1 / 2)])) = - (1 / 2)
   \<and> success (fst (execute_trade (engine_initialize [] [] TradingEngine) ''m''
        (mk_decision ''XYZ'' ''buy'' 2 (Some (9999 / 2))) (mk_env 0 ''o1'' ''f1'')))
   \<and> cash_balance (eng_portfolio engine_after_buy) = 0
   \<and> success (fst (execute_trade engine_after_buy ''m''
        (mk_decision ''XYZ'' ''sell'' 1 (Some (1 / 2))) (mk_env 1 ''o2'' ''f2'')))
   \<and> cash_balance (eng_portfolio (snd (execute_trade engine_after_buy ''m''
        (mk_decision ''XYZ'' ''sell'' 1 (Some (1 / 2))) (mk_env 1 ''o2'' ''f2'')))) = - (1 / 2)"
proof -
  have a: "apply_calls (initialize 100 Portfolio) [buy_call ''XYZ'' 99 1, sell_call ''XYZ'' 1 (1 / 2)]
     = Inr \<lparr>initial_capital = 100, cash_balance = - (1 / 2),
            positions = [(''XYZ'', \<lparr>symbol = ''XYZ'', quantity = 98, avg_cost = 1,
                                   current_price = 1, last_updated = 0\<rparr>)],
            trade_history =
              [\<lparr>tr_timestamp = 0, tr_symbol = ''XYZ'', tr_action = ''buy'', tr_quantity = 99,
                tr_price = Some 1, tr_commission = 1, pnl = - (3 / 2), tr_model_name = '''',
                tr_reason = ''''\<rparr>,
               \<lparr>tr_timestamp = 0, tr_symbol = ''XYZ'', tr_action = ''sell'', tr_quantity = 1,
                tr_price = Some (1 / 2), tr_commission = 1, pnl = 0, tr_model_name = '''',
                tr_reason = ''''\<rparr>],
            is_initialized = True\<rparr>"
    by (simp add: ledger_defs Let_def)
  have b: "success (fst (execute_trade engine_after_buy ''m''
        (mk_decision ''XYZ'' ''sell'' 1 (Some (1 / 2))) (mk_env 1 ''o2'' ''f2'')))
     \<and> cash_balance (eng_portfolio (snd (execute_trade engine_after_buy ''m''
        (mk_decision ''XYZ'' ''sell'' 1 (Some (1 / 2))) (mk_env 1 ''o2'' ''f2'')))) = - (1 / 2)"
    unfolding engine_after_buy_def first_trade_spends_capital
    by (simp add: execute_trade_def risk_defs ledger_defs order_defs Let_def)
  show ?thesis
    unfolding a using b by (simp add: engine_after_buy_def first_trade_spends_capital)
qed

subsection \<open>Realized profit and loss of a sale\<close>

text \<open>What every successful sale does: the cash is credited, the position is decremented
  and removed exactly when it reaches 0, the appended record carries a profit of 0, and the
  realized profit is written to the record that was last before the sale.\<close>

lemma successful_sale_effect:
  assumes "lower action = ''sell''"
    and "update_position symb action q price model_name now p = Inr p'"
  shows "\<exists>pos. map_of (positions p) symb = Some pos \<and> q \<le> quantity pos
           \<and> cash_balance p' = cash_balance p + (of_int q * price - portfolio_calculate_commission q price)
           \<and> map_of (positions p') symb =
               (if quantity pos = q then None else Some (pos\<lparr>quantity := quantity pos - q\<rparr>))
           \<and> length (trade_history p') = Suc (length (trade_history p))
           \<and> pnl (last (trade_history p')) = 0
           \<and> (trade_history p \<noteq> [] \<longrightarrow>
                pnl (trade_history p' ! (length (trade_history p) - 1))
                  = (price - avg_cost pos) * of_int q - portfolio_calculate_commission q price)"
proof -
  from assms(1) have nb: "lower action \<noteq> ''buy''" by auto
  let ?c = "portfolio_calculate_commission q price"
  from assms(2) nb assms(1) obtain p1 where
    s: "sell_stock symb q price ?c model_name p = Inr p1"
    and p': "p' = p1\<lparr>trade_history := trade_history p1 @
                   [\<lparr>tr_timestamp = now, tr_symbol = symb, tr_action = action, tr_quantity = q,
                     tr_price = Some price, tr_commission = ?c, pnl = 0,
                     tr_model_name = model_name, tr_reason = ''''\<rparr>]\<rparr>"
    by (auto simp: update_position_def Let_def split: sum.splits)
  from s obtain pos where pos: "map_of (positions p) symb = Some pos" and ge: "q \<le> quantity pos"
    by (auto simp: sell_stock_def Let_def split: option.splits if_splits)
  let ?pos' = "pos\<lparr>quantity := quantity pos - q\<rparr>"
  from s pos ge have p1: "p1 = p\<lparr>cash_balance := cash_balance p + (of_int q * price - ?c),
        positions := (if quantity pos - q = 0 then AList.delete symb (AList.update symb ?pos' (positions p))
                      else AList.update symb ?pos' (positions p)),
        trade_history := (if trade_history p \<noteq> []
           then (trade_history p)[length (trade_history p) - 1 :=
                  (last (trade_history p))\<lparr>pnl := (price - avg_cost pos) * of_int q - ?c\<rparr>]
           else trade_history p)\<rparr>"
    by (auto simp: sell_stock_def Let_def)
  have m: "map_of (positions p') symb = (if quantity pos = q then None else Some ?pos')"
    unfolding p' p1 by (simp add: AList.delete_conv' AList.update_conv')
  have l: "length (trade_history p') = Suc (length (trade_history p))"
    unfolding p' p1 by simp
  have z: "pnl (last (trade_history p')) = 0" unfolding p' by simp
  have w: "trade_history p \<noteq> [] \<longrightarrow>
                pnl (trade_history p' ! (length (trade_history p) - 1))
                  = (price - avg_cost pos) * of_int q - ?c"
    unfolding p' p1 by (simp add: nth_append)
  have c: "cash_balance p' = cash_balance p + (of_int q * price - ?c)" unfolding p' p1 by simp
  from pos ge c m l z w show ?thesis by blast
qed

text \<open>
  C3 at a ledger holding 10 shares bought at 100, the purchase being the only record of the
  history: selling the 10 shares at 110 credits \<open>10 \<times> 110 - 1\<close> and removes the position,
  but the realized profit \<open>(110 - 100) \<times> 10 - 1 = 99\<close> is written to the record of the
  purchase, the last one of the history while the sale runs, and the record of the sale,
  appended afterwards, carries 0.
\<close>

theorem sale_pnl_lands_on_previous_record:
  "apply_calls (initialize 10000 Portfolio) [buy_call ''AAPL'' 10 100, sell_call ''AAPL'' 10 110]
   = Inr \<lparr>initial_capital = 10000, cash_balance = 10098, positions = [],
          trade_history =
            [\<lparr>tr_timestamp = 0, tr_symbol = ''AAPL'', tr_action = ''buy'', tr_quantity = 10,
              tr_price = Some 100, tr_commission = 1, pnl = 99, tr_model_name = '''', tr_reason = ''''\<rparr>,
             \<lparr>tr_timestamp = 0, tr_symbol = ''AAPL'', tr_action = ''sell'', tr_quantity = 10,
              tr_price = Some 110, tr_commission = 1, pnl = 0, tr_model_name = '''', tr_reason = ''''\<rparr>],
          is_initialized = True\<rparr>"
  by (simp add: buy_call_def sell_call_def update_position_def buy_stock_def sell_stock_def
      initialize_def Portfolio_def lower_def lower_char_def portfolio_calculate_commission_def Let_def)

subsection \<open>The two commission formulas\<close>

text \<open>
  C4 at 1000 shares priced 150: the order path charges \<open>1000 \<times> 0.005 = 5\<close>, the ledger path
  \<open>1000 \<times> 0.01 = 10\<close>.
\<close>

theorem commission_paths_differ:
  "order_calculate_commission 1000 150 = 5 \<and> portfolio_calculate_commission 1000 150 = 10"
  by (simp add: order_calculate_commission_def portfolio_calculate_commission_def round2_def
      round_half_even_def Let_def)

subsection \<open>The verdict of the risk gate\<close>

text \<open>Every approved verdict is sized from the quantity of the decision; the quantities
  that the cash check and the position check computed are not read.\<close>

lemma verdict_sized_from_decision_quantity:
  assumes "check_trade_risk rm d p now = Inr r" and "approved r"
  shows "adjusted_quantity r = calculate_optimal_position_size d p (risk_score r)"
  using assms
  by (auto simp: check_trade_risk_def Let_def split: if_splits sum.splits)

text \<open>The daily-loss check approves exactly when the absolute value of the day's result is
  within the limit.\<close>

lemma daily_loss_check_verdict:
  assumes "initial_capital p \<noteq> 0"
  shows "\<exists>r. check_daily_loss_limit rm p now = Inr r
           \<and> (approved r \<longleftrightarrow>
                \<not> \<bar>sum_list (map pnl (filter (\<lambda>t. date (tr_timestamp t) = date now)
                                       (get_trade_history p [] 100)))
                    + (if sum_list (map (unrealized_pnl \<circ> snd) (positions p)) < 0
                       then sum_list (map (unrealized_pnl \<circ> snd) (positions p)) else 0)\<bar>
                   > initial_capital p * max_daily_loss (rm_settings rm))"
  using assms by (simp add: check_daily_loss_limit_def get_status_def RiskCheckResult_def Let_def)

text \<open>
  C2 at a cash balance of 1000 and a buy of 100 units at 20: the cash check computes the
  shrunk quantity \<open>\<lfloor>1000 / 20.2\<rfloor> = 49\<close>, but the verdict of \<open>check_trade_risk\<close> is approved
  with the adjusted quantity 100, sized from the quantity of the decision, and
  \<open>100 \<times> 20 \<times> 1.01 = 2020\<close> exceeds the balance.
\<close>

theorem check_trade_risk_returns_unshrunk_quantity:
  "adjusted_quantity (check_cash_availability (mk_decision ''XYZ'' ''buy'' 100 (Some 20))
      (initialize 1000 Portfolio)) = 49
   \<and> check_trade_risk RiskManager (mk_decision ''XYZ'' ''buy'' 100 (Some 20)) (initialize 1000 Portfolio) 0
       = Inr \<lparr>approved = True, rc_reason = MsgRiskPassed, adjusted_quantity = 100, risk_score = 1 / 2,
               warnings = [MsgPositionOverLimit 2 (1 / 10) 5, MsgConcentrated]\<rparr>
   \<and> cash_balance (initialize 1000 Portfolio) < 100 * 20 * (101 / 100)"
  by (simp add: risk_defs ledger_defs Let_def)

lemma profitable_day:
  "apply_calls (initialize 10000 Portfolio) [buy_call ''XYZ'' 100 10, sell_call ''XYZ'' 100 20]
   = Inr \<lparr>initial_capital = 10000, cash_balance = 10998, positions = [],
          trade_history =
            [\<lparr>tr_timestamp = 0, tr_symbol = ''XYZ'', tr_action = ''buy'', tr_quantity = 100,
              tr_price = Some 10, tr_commission = 1, pnl = 999, tr_model_name = '''', tr_reason = ''''\<rparr>,
             \<lparr>tr_timestamp = 0, tr_symbol = ''XYZ'', tr_action = ''sell'', tr_quantity = 100,
              tr_price = Some 20, tr_commission = 1, pnl = 0, tr_model_name = '''', tr_reason = ''''\<rparr>],
          is_initialized = True\<rparr>"
  by (simp add: ledger_defs Let_def)

text \<open>
  C5 at a ledger of capital 10000 whose trades of the day carry a realized profit of 999
  (100 shares bought at 10 and sold at 20) and which holds no position: the limit is
  \<open>10000 \<times> 0.05 = 500\<close>, the check compares the absolute value of the day's result with it
  and rejects, although the day is a profit.
\<close>

theorem daily_loss_check_rejects_profit:
  "check_daily_loss_limit RiskManager
     (projr (apply_calls (initialize 10000 Portfolio)
        [buy_call ''XYZ'' 100 10, sell_call ''XYZ'' 100 20])) 0
   = Inr \<lparr>approved = False, rc_reason = MsgDailyLossExceeded 999 500, adjusted_quantity = 0,
           risk_score = 0, warnings = []\<rparr>"
  unfolding profitable_day by (simp add: risk_defs Let_def)

text \<open>
  C6, as stated, fails: for a buy of 10 shares without a limit price on a fresh ledger of
  10000, the cash check and the position check both leave the quantity at 10 and the risk
  score is 0.2; the claimed factor \<open>max(0.5, 1 - 0.2) = 0.8\<close> would give 8, the verdict
  carries 10.
\<close>

theorem low_risk_quantity_is_not_scaled:
  "adjusted_quantity (check_cash_availability (mk_decision ''AAPL'' ''buy'' 10 None)
      (initialize 10000 Portfolio)) = 10
   \<and> map_sum id adjusted_quantity (check_position_limits RiskManager
        (mk_decision ''AAPL'' ''buy'' 10 None) (initialize 10000 Portfolio)) = Inr 10
   \<and> check_trade_risk RiskManager (mk_decision ''AAPL'' ''buy'' 10 None) (initialize 10000 Portfolio) 0
       = Inr \<lparr>approved = True, rc_reason = MsgRiskPassed, adjusted_quantity = 10, risk_score = 1 / 5,
               warnings = [MsgConcentrated]\<rparr>
   \<and> py_int (10 * max (1 / 2) (1 - 1 / 5)) = 8"
  by (simp add: risk_defs ledger_defs Let_def)

lemma holding_portfolio_eq:
  "holding_portfolio =
     \<lparr>initial_capital = 10000, cash_balance = 4999,
      positions = [(''AAPL'', \<lparr>symbol = ''AAPL'', quantity = 50, avg_cost = 100,
                              current_price = 100, last_updated = 0\<rparr>)],
      trade_history =
        [\<lparr>tr_timestamp = 0, tr_symbol = ''AAPL'', tr_action = ''buy'', tr_quantity = 50,
          tr_price = Some 100, tr_commission = 1, pnl = 0, tr_model_name = '''', tr_reason = ''''\<rparr>],
      is_initialized = True\<rparr>"
  by (simp add: holding_portfolio_def ledger_defs Let_def)

text \<open>
  C6, amended. For every approved decision whose quantity \<open>q\<close> the cash check and the
  position check leave unchanged, with accumulated risk score \<open>r\<close>: the adjusted quantity of
  the verdict is \<open>max(1, q)\<close> when \<open>r \<le> 0.5\<close>, and \<open>max(1, int(q \<times> max(0.5, 1 - r)))\<close> when
  \<open>r > 0.5\<close>.
\<close>

theorem final_quantity_of_unshrunk_decision:
  assumes "check_trade_risk rm d p now = Inr r" and "approved r"
    and "adjusted_quantity (check_cash_availability d p) = d_quantity d"
    and "check_position_limits rm d p = Inr pc" and "adjusted_quantity pc = d_quantity d"
  shows "adjusted_quantity r =
           max 1 (if risk_score r > 1 / 2
                  then py_int (of_int (d_quantity d) * max (1 / 2) (1 - risk_score r))
                  else d_quantity d)"
  using assms(1,2)
  by (auto simp: check_trade_risk_def calculate_optimal_position_size_def Let_def
      split: if_splits sum.splits)

lemma sell_verdict:
  "check_trade_risk volatile_manager (mk_decision ''AAPL'' ''sell'' 10 None) holding_portfolio 0
   = Inr \<lparr>approved = True, rc_reason = MsgRiskPassed, adjusted_quantity = 5, risk_score = 3 / 5,
           warnings = [MsgPositionOverLimit (4000 / 9999) (1 / 10) 10, MsgConcentrated,
                       MsgVolatile ''AAPL'' (1 / 2)]\<rparr>"
  unfolding holding_portfolio_eq by (simp add: risk_defs volatile_manager_def lower_def lower_char_def Let_def)

lemma sell_position_check:
  "check_position_limits volatile_manager (mk_decision ''AAPL'' ''sell'' 10 None) holding_portfolio
   = Inr \<lparr>approved = True, rc_reason = MsgNone, adjusted_quantity = 10, risk_score = 3 / 10,
           warnings = [MsgPositionOverLimit (4000 / 9999) (1 / 10) 10]\<rparr>"
  unfolding holding_portfolio_eq by (simp add: risk_defs volatile_manager_def lower_def lower_char_def Let_def)

theorem final_quantity_of_unshrunk_decision_witness:
  "adjusted_quantity (projr (check_trade_risk volatile_manager (mk_decision ''AAPL'' ''sell'' 10 None)
      holding_portfolio 0)) = 5
   \<and> risk_score (projr (check_trade_risk volatile_manager (mk_decision ''AAPL'' ''sell'' 10 None)
      holding_portfolio 0)) = 3 / 5"
proof -
  let ?d = "mk_decision ''AAPL'' ''sell'' 10 None"
  let ?r = "projr (check_trade_risk volatile_manager ?d holding_portfolio 0)"
  have a: "check_trade_risk volatile_manager ?d holding_portfolio 0 = Inr ?r"
    by (simp add: sell_verdict)
  have b: "approved ?r" by (simp add: sell_verdict)
  have c: "adjusted_quantity (check_cash_availability ?d holding_portfolio) = d_quantity ?d"
    by (simp add: check_cash_availability_def mk_decision_def lower_def lower_char_def RiskCheckResult_def)
  have e: "adjusted_quantity \<lparr>approved = True, rc_reason = MsgNone, adjusted_quantity = 10, risk_score = 3 / 10,
           warnings = [MsgPositionOverLimit (4000 / 9999) (1 / 10) 10]\<rparr> = d_quantity ?d"
    by (simp add: mk_decision_def)
  have s: "risk_score ?r = 3 / 5" by (simp add: sell_verdict)
  from final_quantity_of_unshrunk_decision [OF a b c sell_position_check e] s show ?thesis
    by (simp add: mk_decision_def py_int_def)
qed

subsection \<open>Market orders\<close>

lemma fresh_engine_verdict:
  assumes "rm_settings rm = Settings"
  shows "\<exists>r. check_trade_risk rm (mk_decision ''AAPL'' ''buy'' 10 None) (initialize 10000 Portfolio) t = Inr r
     \<and> approved r \<and> adjusted_quantity r = 10"
  by (simp add: assms check_trade_risk_def check_cash_availability_def check_position_limits_def
  check_daily_loss_limit_def check_concentration_risk_def check_correlation_risk_def
  check_volatility_risk_def calculate_optimal_position_size_def get_status_def get_position_def
  get_trade_history_def  estimated_price_def
  RiskCheckResult_def  Settings_def py_int_def market_value_def
  unrealized_pnl_def mk_decision_def initialize_def Portfolio_def lower_def lower_char_def Let_def)

lemma fresh_engine_order:
  "place_order (om_initialize OrderManager) (mk_decision ''AAPL'' ''buy'' 10 None) (mk_env t oid fid)
   = (\<lparr>success = True, r_order_id = Some oid, executed_price = Some (15015 / 100),
       executed_quantity = 10, commission = 1, error_message = MsgNone\<rparr>,
      \<lparr>orders = [(oid, \<lparr>order_id = oid, o_symbol = ''AAPL'', o_action = ''buy'', o_quantity = 10,
                   order_type = MARKET, o_price = None, stop_price = None, status = FILLED,
                   created_at = t, updated_at = t, filled_quantity = 10,
                   avg_fill_price = 15015 / 100, o_commission = 1, o_model_name = '''', o_reason = ''''\<rparr>)],
       fills = [\<lparr>fill_id = fid, f_order_id = oid, f_symbol = ''AAPL'', f_quantity = 10,
                 f_price = 15015 / 100, f_timestamp = t, f_commission = 1\<rparr>],
       om_is_initialized = True, simulation_mode = True,
       market_data_cache = [(''AAPL'', 150, t)]\<rparr>)"
  by (simp add: order_defs Let_def)

lemma fresh_engine_ledger:
  "update_position ''AAPL'' ''buy'' 10 (3003 / 20) '''' t (initialize 10000 Portfolio)
   = Inr \<lparr>initial_capital = 10000, cash_balance = 84975 / 10,
          positions = [(''AAPL'', \<lparr>symbol = ''AAPL'', quantity = 10, avg_cost = 3003 / 20,
                                  current_price = 3003 / 20, last_updated = t\<rparr>)],
          trade_history =
            [\<lparr>tr_timestamp = t, tr_symbol = ''AAPL'', tr_action = ''buy'', tr_quantity = 10,
              tr_price = Some (3003 / 20), tr_commission = 1, pnl = 0, tr_model_name = '''',
              tr_reason = ''''\<rparr>],
          is_initialized = True\<rparr>"
  by (simp add: ledger_defs Let_def)

lemma fresh_engine_quote:
  "fst (get_current_price (eng_order_manager (engine_initialize corr vol TradingEngine)) ''AAPL''
      (mk_env t oid fid)) = Some 150"
  by (simp add: engine_initialize_def TradingEngine_def order_defs Let_def)

lemma fresh_engine_trade:
  "execute_trade (engine_initialize corr vol TradingEngine) m (mk_decision ''AAPL'' ''buy'' 10 None)
     (mk_env t oid fid)
   = (\<lparr>success = True, r_order_id = Some oid, executed_price = Some (15015 / 100),
       executed_quantity = 10, commission = 1, error_message = MsgNone\<rparr>,
      (engine_initialize corr vol TradingEngine)
        \<lparr>eng_order_manager := snd (place_order (om_initialize OrderManager)
             (mk_decision ''AAPL'' ''buy'' 10 None) (mk_env t oid fid)),
         eng_portfolio := projr (update_position ''AAPL'' ''buy'' 10 (3003 / 20) '''' t
             (initialize 10000 Portfolio))\<rparr>)"
proof -
  let ?E = "engine_initialize corr vol TradingEngine"
  let ?d = "mk_decision ''AAPL'' ''buy'' 10 None"
  have p: "eng_portfolio ?E = initialize 10000 Portfolio"
    and o: "eng_order_manager ?E = om_initialize OrderManager"
    and s: "rm_settings (eng_risk_manager ?E) = Settings"
    by (simp_all add: engine_initialize_def TradingEngine_def Settings_def RiskManager_def)
  from fresh_engine_verdict [OF s] obtain r where
    r: "check_trade_risk (eng_risk_manager ?E) ?d (initialize 10000 Portfolio) t = Inr r"
      "approved r" "adjusted_quantity r = 10" by blast
  have q: "d_quantity ?d = 10" "d_symbol ?d = ''AAPL''" "d_action ?d = ''buy''"
    by (simp_all add: mk_decision_def)
  have n: "e_now (mk_env t oid fid) = t" by (simp add: mk_env_def)
  show ?thesis
    unfolding execute_trade_def p o n
    by (simp add: r q fresh_engine_order fresh_engine_ledger p Let_def)
qed

text \<open>
  C7. A decision without a limit price, placed with an order manager in simulation mode
  that obtains the quote \<open>quote\<close>, gives a market order that is FILLED when \<open>place_order\<close>
  returns, with the filled quantity equal to the requested one and the fill price
  \<open>quote \<times> 1.001\<close> for a buy and \<open>quote \<times> 0.999\<close> otherwise. And on a freshly initialized
  engine (capital 10000), executing a buy of 10 AAPL at the quote 150 fills at 150.15 with
  commission 1.00, leaves the cash at \<open>10000 - (10 \<times> 150.15 + 1.00) = 8497.50\<close> and a position
  of 10 shares at average cost 150.15.
\<close>

theorem market_order_fills_completely:
  assumes "d_price d = None" and "simulation_mode om"
    and "get_current_price om (d_symbol d) e = (Some quote, om1)"
  shows "(\<exists>res om' ord. place_order om d e = (res, om')
           \<and> success res \<and> executed_quantity res = d_quantity d
           \<and> executed_price res = Some (quote * (if lower (d_action d) = ''buy'' then 1001 / 1000 else 999 / 1000))
           \<and> map_of (orders om') (e_order_id e) = Some ord
           \<and> order_type ord = MARKET \<and> status ord = FILLED
           \<and> filled_quantity ord = d_quantity d
           \<and> avg_fill_price ord = quote * (if lower (d_action d) = ''buy'' then 1001 / 1000 else 999 / 1000))
       \<and> (fst (get_current_price (eng_order_manager (engine_initialize corr vol TradingEngine)) ''AAPL''
               (mk_env t oid fid)) = Some 150
          \<and> fst (execute_trade (engine_initialize corr vol TradingEngine) m
                 (mk_decision ''AAPL'' ''buy'' 10 None) (mk_env t oid fid))
            = \<lparr>success = True, r_order_id = Some oid, executed_price = Some (15015 / 100),
               executed_quantity = 10, commission = 1, error_message = MsgNone\<rparr>
          \<and> cash_balance (eng_portfolio (snd (execute_trade (engine_initialize corr vol TradingEngine) m
                 (mk_decision ''AAPL'' ''buy'' 10 None) (mk_env t oid fid))))
            = 10000 - (10 * (15015 / 100) + 1)
          \<and> 10000 - (10 * (15015 / 100) + 1) = (84975 / 10 :: real)
          \<and> positions (eng_portfolio (snd (execute_trade (engine_initialize corr vol TradingEngine) m
                 (mk_decision ''AAPL'' ''buy'' 10 None) (mk_env t oid fid))))
            = [(''AAPL'', \<lparr>symbol = ''AAPL'', quantity = 10, avg_cost = 15015 / 100,
                            current_price = 15015 / 100, last_updated = t\<rparr>)]
          \<and> map (status \<circ> snd) (orders (eng_order_manager (snd (execute_trade
                 (engine_initialize corr vol TradingEngine) m
                 (mk_decision ''AAPL'' ''buy'' 10 None) (mk_env t oid fid))))) = [FILLED])"
proof -
  have sim: "simulation_mode (snd (create_order om d e))"
    using assms(2) by (simp add: create_order_def Let_def)
  have ot: "order_type (fst (create_order om d e)) = MARKET"
    "o_symbol (fst (create_order om d e)) = d_symbol d"
    "o_action (fst (create_order om d e)) = d_action d"
    "o_quantity (fst (create_order om d e)) = d_quantity d"
    "order_id (fst (create_order om d e)) = e_order_id e"
    using assms(1) by (simp_all add: create_order_def Let_def)
  have g: "get_current_price (snd (create_order om d e)) (d_symbol d) e =
     (Some quote, om1\<lparr>orders := AList.update (e_order_id e) (fst (create_order om d e)) (orders om)\<rparr>)"
    using assms(3) by (auto simp: get_current_price_def create_order_def Let_def split: option.splits if_splits)
  have A: "\<exists>res om' ord. place_order om d e = (res, om')
           \<and> success res \<and> executed_quantity res = d_quantity d
           \<and> executed_price res = Some (quote * (if lower (d_action d) = ''buy'' then 1001 / 1000 else 999 / 1000))
           \<and> map_of (orders om') (e_order_id e) = Some ord
           \<and> order_type ord = MARKET \<and> status ord = FILLED
           \<and> filled_quantity ord = d_quantity d
           \<and> avg_fill_price ord = quote * (if lower (d_action d) = ''buy'' then 1001 / 1000 else 999 / 1000)"
    unfolding place_order_def
    by (simp add: split_beta submit_order_def sim simulate_order_execution_def ot g
        Let_def fill_order_def store_order_def TradeResult_def AList.update_conv')
  have B: "cash_balance (projr (update_position ''AAPL'' ''buy'' 10 (3003 / 20) '''' t
             (initialize 10000 Portfolio))) = 10000 - (10 * (15015 / 100) + 1)"
    "positions (projr (update_position ''AAPL'' ''buy'' 10 (3003 / 20) '''' t
             (initialize 10000 Portfolio))) = [(''AAPL'', \<lparr>symbol = ''AAPL'', quantity = 10, avg_cost = 15015 / 100,
                            current_price = 15015 / 100, last_updated = t\<rparr>)]"
    by (simp_all add: fresh_engine_ledger)
  show ?thesis
    by (intro conjI A fresh_engine_quote) (simp_all add: fresh_engine_trade B fresh_engine_order)
qed

theorem market_order_fills_completely_witness:
  "map_option status (map_of (orders (snd (place_order OrderManager (mk_decision ''AAPL'' ''sell'' 10 None)
      (mk_env 0 ''o1'' ''f1'')))) ''o1'') = Some FILLED
   \<and> executed_price (fst (place_order OrderManager (mk_decision ''AAPL'' ''sell'' 10 None)
      (mk_env 0 ''o1'' ''f1''))) = Some (150 * (999 / 1000))"
proof -
  let ?d = "mk_decision ''AAPL'' ''sell'' 10 None" and ?e = "mk_env 0 ''o1'' ''f1''"
  have a: "d_price ?d = None" by (simp add: mk_decision_def)
  have b: "simulation_mode OrderManager" by (simp add: OrderManager_def)
  have c: "get_current_price OrderManager (d_symbol ?d) ?e
       = (Some 150, OrderManager\<lparr>market_data_cache := [(''AAPL'', 150, 0)]\<rparr>)"
    by (simp add: order_defs Let_def)
  have l: "lower (d_action ?d) \<noteq> ''buy''" "e_order_id ?e = ''o1''"
    by (simp_all add: mk_decision_def mk_env_def lower_def lower_char_def)
  from market_order_fills_completely [OF a b c, THEN conjunct1] obtain res om' ord where
    "place_order OrderManager ?d ?e = (res, om')"
    "executed_price res = Some (150 * (if lower (d_action ?d) = ''buy'' then 1001 / 1000 else 999 / 1000))"
    "map_of (orders om') (e_order_id ?e) = Some ord" "status ord = FILLED"
    by blast
  with l show ?thesis by simp
qed

subsection \<open>The status of an order\<close>

lemma status_follows_refl: "status_follows a a"
  by (simp add: status_follows_def)

lemma status_follows_trans: "status_follows a b \<Longrightarrow> status_follows b c \<Longrightarrow> status_follows a c"
  unfolding status_follows_def by (cases a; cases b; simp)

lemma step_ok_refl: "keyed (orders om) \<Longrightarrow> step_ok om om"
  by (simp add: step_ok_def status_follows_refl)

lemma step_ok_same_orders: "keyed (orders om) \<Longrightarrow> orders om' = orders om \<Longrightarrow> step_ok om om'"
  by (simp add: step_ok_def status_follows_refl)

lemma step_ok_trans:
  assumes "step_ok a b" and "step_ok b c"
  shows "step_ok a c"
  unfolding step_ok_def
proof (intro conjI allI impI)
  show "keyed (orders c)" using assms(2) by (simp add: step_ok_def)
next
  fix k x
  assume "map_of (orders a) k = Some x"
  with assms(1) obtain y where y: "map_of (orders b) k = Some y" "status_follows (status x) (status y)"
    unfolding step_ok_def by blast
  with assms(2) obtain z where z: "map_of (orders c) k = Some z" "status_follows (status y) (status z)"
    unfolding step_ok_def by blast
  from y(2) z(2) have "status_follows (status x) (status z)" by (rule status_follows_trans)
  with z(1) show "\<exists>z. map_of (orders c) k = Some z \<and> status_follows (status x) (status z)" by blast
qed

lemma keyed_update: "keyed al \<Longrightarrow> order_id x = k \<Longrightarrow> keyed (AList.update k x al)"
  unfolding keyed_def using set_update_subset [of k x al] by (auto simp: distinct_update)

lemma keyed_lookup: "keyed al \<Longrightarrow> map_of al k = Some x \<Longrightarrow> order_id x = k"
  unfolding keyed_def by (auto dest: map_of_SomeD)

lemma step_ok_update:
  assumes "keyed (orders om)" and "orders om' = AList.update k y (orders om)" and "order_id y = k"
    and "\<And>x. map_of (orders om) k = Some x \<Longrightarrow> status_follows (status x) (status y)"
  shows "step_ok om om'"
  unfolding step_ok_def
proof (intro conjI allI impI)
  show "keyed (orders om')" using assms(1,2,3) by (simp add: keyed_update)
next
  fix j x
  assume a: "map_of (orders om) j = Some x"
  show "\<exists>z. map_of (orders om') j = Some z \<and> status_follows (status x) (status z)"
  proof (cases "j = k")
    case True
    with a assms(4) have "status_follows (status x) (status y)" by simp
    with True show ?thesis by (simp add: assms(2) AList.update_conv')
  next
    case False
    with a show ?thesis by (simp add: assms(2) AList.update_conv' status_follows_refl)
  qed
qed

lemma orders_get_current_price [simp]: "orders (snd (get_current_price om s e)) = orders om"
  by (simp add: get_current_price_def Let_def split: option.splits prod.splits)

lemma simulation_mode_get_current_price [simp]:
  "simulation_mode (snd (get_current_price om s e)) = simulation_mode om"
  by (simp add: get_current_price_def Let_def split: option.splits prod.splits)

lemma orders_fill_order:
  "orders (snd (fill_order om x p e)) =
   AList.update (order_id x) (x\<lparr>status := FILLED, filled_quantity := o_quantity x, avg_fill_price := p,
      o_commission := order_calculate_commission (o_quantity x) p, updated_at := e_now e\<rparr>) (orders om)"
  by (simp add: fill_order_def store_order_def Let_def)

lemma overwrites_store:
  "orders om1 = orders om \<Longrightarrow> order_id y = k \<Longrightarrow> status y \<noteq> EXPIRED \<Longrightarrow> overwrites om k (store_order y om1)"
  unfolding overwrites_def store_order_def by auto

lemma overwrites_fill:
  "orders om1 = orders om \<Longrightarrow> overwrites om (order_id x) (snd (fill_order om1 x p e))"
  unfolding overwrites_def orders_fill_order
  by (rule exI [of _ "x\<lparr>status := FILLED, filled_quantity := o_quantity x, avg_fill_price := p,
      o_commission := order_calculate_commission (o_quantity x) p, updated_at := e_now e\<rparr>"]) simp

lemma simulate_effect:
  "case simulate_order_execution om x e of
     Inl (err, s) \<Rightarrow> orders s = orders om
   | Inr (r, s) \<Rightarrow> overwrites om (order_id x) s"
proof -
  obtain cp om1 where g: "get_current_price om (o_symbol x) e = (cp, om1)"
    by (cases "get_current_price om (o_symbol x) e")
  then have o1: "orders om1 = orders om" by (metis orders_get_current_price snd_conv)
  have st: "\<And>t. overwrites om (order_id x) (store_order (x\<lparr>status := t\<rparr>) om1) \<or> t = EXPIRED"
    using o1 by (auto intro: overwrites_store)
  have fl: "\<And>p. overwrites om (order_id x) (snd (fill_order om1 x p e))"
    using o1 by (rule overwrites_fill)
  show ?thesis
  proof (cases cp)
    case None
    with g st [of REJECTED] show ?thesis by (simp add: simulate_order_execution_def)
  next
    case (Some c)
    with g st [of SUBMITTED] fl o1 show ?thesis
      by (simp add: simulate_order_execution_def Let_def split_beta split: option.splits)
  qed
qed

lemma submit_effect:
  "orders (snd (submit_order om x e)) = orders om \<or> overwrites om (order_id x) (snd (submit_order om x e))"
proof (cases "simulation_mode om")
  case False
  then show ?thesis by (simp add: submit_order_def execute_real_order_def)
next
  case True
  show ?thesis
  proof (cases "simulate_order_execution om x e")
    case (Inl a)
    obtain err s where a: "a = (err, s)" by (cases a)
    with Inl simulate_effect [of om x e] have "orders s = orders om" by simp
    then have "overwrites om (order_id x) (store_order (x\<lparr>status := REJECTED, updated_at := e_now e\<rparr>) s)"
      by (auto intro: overwrites_store)
    with True Inl a show ?thesis by (simp add: submit_order_def)
  next
    case (Inr b)
    obtain r s where b: "b = (r, s)" by (cases b)
    with Inr simulate_effect [of om x e] have "overwrites om (order_id x) s" by simp
    with True Inr b show ?thesis by (simp add: submit_order_def)
  qed
qed

lemma place_effect: "overwrites om (e_order_id e) (snd (place_order om d e))"
proof -
  let ?x = "fst (create_order om d e)" and ?om1 = "snd (create_order om d e)"
  have x: "order_id ?x = e_order_id e" "status ?x = PENDING"
    and o: "orders ?om1 = AList.update (e_order_id e) ?x (orders om)"
    by (simp_all add: create_order_def Let_def)
  have p: "place_order om d e = submit_order ?om1 ?x e"
    by (simp add: place_order_def split_beta)
  from submit_effect [of ?om1 ?x e] show ?thesis
  proof
    assume "orders (snd (submit_order ?om1 ?x e)) = orders ?om1"
    with x o show ?thesis unfolding p overwrites_def by (intro exI [of _ ?x]) simp
  next
    assume "overwrites ?om1 (order_id ?x) (snd (submit_order ?om1 ?x e))"
    then obtain y where "order_id y = e_order_id e" "status y \<noteq> EXPIRED"
      "orders (snd (submit_order ?om1 ?x e)) = AList.update (e_order_id e) y (orders ?om1)"
      unfolding overwrites_def x by blast
    then show ?thesis unfolding p overwrites_def o by (intro exI [of _ y]) simp
  qed
qed

lemma step_ok_place:
  assumes "keyed (orders om)" and "e_order_id e \<notin> fst ` set (orders om)"
  shows "step_ok om (snd (place_order om d e))"
proof -
  from place_effect [of om e d] obtain y where y: "order_id y = e_order_id e"
    "orders (snd (place_order om d e)) = AList.update (e_order_id e) y (orders om)"
    unfolding overwrites_def by blast
  from assms(2) have "map_of (orders om) (e_order_id e) = None" by (simp add: map_of_eq_None_iff)
  then show ?thesis by (intro step_ok_update [OF assms(1) y(2) y(1)]) simp
qed

lemma step_ok_cancel:
  assumes "keyed (orders om)"
  shows "step_ok om (snd (cancel_order om oid now))"
proof (cases "map_of (orders om) oid")
  case None
  then show ?thesis by (simp add: cancel_order_def step_ok_refl assms)
next
  case (Some x)
  show ?thesis
  proof (cases "status x \<in> {FILLED, CANCELLED, REJECTED}")
    case True
    with Some show ?thesis by (simp add: cancel_order_def step_ok_refl assms)
  next
    case False
    let ?y = "x\<lparr>status := CANCELLED, updated_at := now\<rparr>"
    from False Some have o: "orders (snd (cancel_order om oid now)) = AList.update oid ?y (orders om)"
      by (simp add: cancel_order_def)
    from assms Some have "order_id ?y = oid" by (simp add: keyed_lookup)
    moreover from False have "status_follows (status x) (status ?y)" by (simp add: status_follows_def)
    ultimately show ?thesis using Some by (intro step_ok_update [OF assms o]) simp_all
  qed
qed

lemma step_ok_keyed: "step_ok om om' \<Longrightarrow> keyed (orders om')"
  by (simp add: step_ok_def)

lemma step_ok_cancel_all:
  "keyed (orders om) \<Longrightarrow> step_ok om (foldl (\<lambda>acc oid. snd (cancel_order acc oid now)) om L)"
proof (induction L arbitrary: om)
  case Nil
  then show ?case by (simp add: step_ok_refl)
next
  case (Cons j L)
  from Cons.prems have a: "step_ok om (snd (cancel_order om j now))" by (rule step_ok_cancel)
  from Cons.IH [OF step_ok_keyed [OF a]] a show ?case by (auto intro: step_ok_trans)
qed

lemma step_ok_shutdown: "keyed (orders om) \<Longrightarrow> step_ok om (om_shutdown om now)"
  unfolding om_shutdown_def by (rule step_ok_cancel_all)

lemma fills_only_refl: "keyed (orders om) \<Longrightarrow> orders om' = orders om \<Longrightarrow> fills_only L om om'"
  by (simp add: fills_only_def)

lemma fills_only_Cons:
  assumes "fills_only [j] a b" and "fills_only L b c"
  shows "fills_only (j # L) a c"
  unfolding fills_only_def
proof (intro conjI allI impI)
  show "keyed (orders c)" using assms(2) by (simp add: fills_only_def)
next
  fix k x
  assume "map_of (orders a) k = Some x"
  with assms(1) obtain y where y: "map_of (orders b) k = Some y" "y = x \<or> k = j \<and> status y = FILLED"
    unfolding fills_only_def by fastforce
  with assms(2) obtain z where z: "map_of (orders c) k = Some z" "z = y \<or> k \<in> set L \<and> status z = FILLED"
    unfolding fills_only_def by blast
  from y(2) z(2) have "z = x \<or> k \<in> set (j # L) \<and> status z = FILLED" by auto
  with z(1) show "\<exists>z. map_of (orders c) k = Some z \<and> (z = x \<or> k \<in> set (j # L) \<and> status z = FILLED)"
    by blast
qed

lemma fills_only_update:
  assumes "keyed (orders om)" and "map_of (orders om) j = Some x"
    and "orders om' = AList.update j (x\<lparr>status := FILLED, filled_quantity := a, avg_fill_price := b,
            o_commission := c, updated_at := d\<rparr>) (orders om)"
  shows "fills_only [j] om om'"
  unfolding fills_only_def
proof (intro conjI allI impI)
  from assms(1,2) have "order_id x = j" by (rule keyed_lookup)
  with assms(1) show "keyed (orders om')" unfolding assms(3) by (intro keyed_update) simp_all
next
  fix k y
  assume "map_of (orders om) k = Some y"
  then show "\<exists>z. map_of (orders om') k = Some z \<and> (z = y \<or> k \<in> set [j] \<and> status z = FILLED)"
    unfolding assms(3) by (cases "k = j") (simp_all add: AList.update_conv')
qed

lemma process_one_effect:
  assumes "keyed (orders (state_of acc))"
  shows "fills_only [j] (state_of acc) (state_of (process_one draw j acc))"
proof (cases acc)
  case (Inl a)
  then show ?thesis using assms by (simp add: process_one_def fills_only_refl)
next
  case (Inr om)
  with assms have k: "keyed (orders om)" by (simp add: state_of_def)
  show ?thesis
  proof (cases "map_of (orders om) j")
    case None
    with Inr k show ?thesis by (simp add: process_one_def fills_only_refl state_of_def)
  next
    case (Some x)
    obtain cp om1 where g: "get_current_price om (o_symbol x) (draw j) = (cp, om1)"
      by (cases "get_current_price om (o_symbol x) (draw j)")
    then have o1: "orders om1 = orders om" by (metis orders_get_current_price snd_conv)
    have same: "fills_only [j] om om1" using k o1 by (rule fills_only_refl)
    have fl: "\<And>lp. fills_only [j] om (fill_limit_order om1 x lp (draw j))"
      using k Some unfolding fill_limit_order_def
      by (rule fills_only_update) (simp add: orders_fill_order o1 keyed_lookup [OF k Some])
    have self: "fills_only [j] om om" using k by (simp add: fills_only_refl)
    show ?thesis
      using Inr Some g same fl self
      by (cases cp) (simp_all add: process_one_def state_of_def split: option.splits)
  qed
qed

lemma fills_only_keyed: "fills_only L om om' \<Longrightarrow> keyed (orders om')"
  by (simp add: fills_only_def)

lemma process_loop_effect:
  "keyed (orders (state_of acc)) \<Longrightarrow>
   fills_only L (state_of acc) (state_of (foldl (\<lambda>acc oid. process_one draw oid acc) acc L))"
proof (induction L arbitrary: acc)
  case Nil
  then show ?case by (simp add: fills_only_refl)
next
  case (Cons j L)
  from Cons.prems have a: "fills_only [j] (state_of acc) (state_of (process_one draw j acc))"
    by (rule process_one_effect)
  from Cons.IH [OF fills_only_keyed [OF a]] a show ?case by (auto intro: fills_only_Cons)
qed

lemma pending_ids_submitted:
  assumes "keyed (orders om)" and "k \<in> set (map order_id (get_orders om None (Some t)))"
    and "map_of (orders om) k = Some x"
  shows "status x = t"
proof -
  from assms(2) obtain x' where x': "x' \<in> snd ` set (orders om)" "status x' = t" "order_id x' = k"
    by (auto simp: get_orders_def Let_def)
  then obtain k' where "(k', x') \<in> set (orders om)" by auto
  moreover with assms(1) x'(3) have "k' = k" by (auto simp: keyed_def)
  ultimately have "map_of (orders om) k = Some x'" using assms(1) by (simp add: keyed_def)
  with assms(3) x'(2) show ?thesis by simp
qed

lemma step_ok_process:
  assumes "keyed (orders om)"
  shows "step_ok om (state_of (process_pending_orders om draw))"
proof -
  let ?L = "map order_id (get_orders om None (Some SUBMITTED))"
  let ?om' = "state_of (process_pending_orders om draw)"
  have "fills_only ?L (state_of (Inr om)) ?om'"
    unfolding process_pending_orders_def
    by (rule process_loop_effect) (simp add: state_of_def assms)
  then have f: "fills_only ?L om ?om'" by (simp add: state_of_def)
  show ?thesis
    unfolding step_ok_def
  proof (intro conjI allI impI)
    show "keyed (orders ?om')" using f by (rule fills_only_keyed)
  next
    fix k x
    assume a: "map_of (orders om) k = Some x"
    with f obtain y where y: "map_of (orders ?om') k = Some y" "y = x \<or> k \<in> set ?L \<and> status y = FILLED"
      unfolding fills_only_def by blast
    from y(2) have "status_follows (status x) (status y)"
    proof
      assume "y = x" then show ?thesis by (simp add: status_follows_refl)
    next
      assume b: "k \<in> set ?L \<and> status y = FILLED"
      with pending_ids_submitted [OF assms _ a] have "status x = SUBMITTED" by blast
      with b show ?thesis by (simp add: status_follows_def)
    qed
    with y(1) show "\<exists>y. map_of (orders ?om') k = Some y \<and> status_follows (status x) (status y)" by blast
  qed
qed

lemma step_ok_om_step:
  assumes "keyed (orders om)"
    and "case ev of EvPlaceOrder d e \<Rightarrow> e_order_id e \<notin> fst ` set (orders om) | _ \<Rightarrow> True"
  shows "step_ok om (om_step om ev)"
proof (cases ev)
  case EvInitialize
  then show ?thesis using assms(1) by (simp add: om_initialize_def step_ok_same_orders)
next
  case (EvPlaceOrder d e)
  with assms show ?thesis by (simp add: step_ok_place)
next
  case (EvCancelOrder oid now)
  with assms show ?thesis by (simp add: step_ok_cancel)
next
  case (EvProcessPending draw)
  with assms show ?thesis by (simp add: step_ok_process)
next
  case (EvShutdown now)
  with assms show ?thesis by (simp add: step_ok_shutdown)
qed

lemma step_ok_om_run:
  "keyed (orders om) \<Longrightarrow> fresh_ids om evs \<Longrightarrow> step_ok om (om_run om evs)"
proof (induction evs arbitrary: om)
  case Nil
  then show ?case by (simp add: om_run_def step_ok_refl)
next
  case (Cons ev evs)
  from Cons.prems have a: "step_ok om (om_step om ev)" by (intro step_ok_om_step) simp_all
  from Cons.prems have "fresh_ids (om_step om ev) evs" by simp
  from Cons.IH [OF step_ok_keyed [OF a] this] a show ?case
    by (simp add: om_run_def) (metis step_ok_trans om_run_def)
qed

lemma unexpired_update: "unexpired al \<Longrightarrow> status y \<noteq> EXPIRED \<Longrightarrow> unexpired (AList.update k y al)"
  unfolding unexpired_def using set_update_subset [of k y al] by auto

lemma unexpired_overwrites: "unexpired (orders om) \<Longrightarrow> overwrites om k s \<Longrightarrow> unexpired (orders s)"
  unfolding overwrites_def by (auto intro: unexpired_update)

lemma unexpired_place: "unexpired (orders om) \<Longrightarrow> unexpired (orders (snd (place_order om d e)))"
  using place_effect [of om e d] by (auto intro: unexpired_overwrites)

lemma unexpired_cancel: "unexpired (orders om) \<Longrightarrow> unexpired (orders (snd (cancel_order om oid now)))"
  by (simp add: cancel_order_def unexpired_update split: option.splits)

lemma unexpired_cancel_all:
  "unexpired (orders om) \<Longrightarrow> unexpired (orders (foldl (\<lambda>acc oid. snd (cancel_order acc oid now)) om L))"
  by (induction L arbitrary: om) (simp_all add: unexpired_cancel)

lemma unexpired_process_one:
  assumes "unexpired (orders (state_of acc))"
  shows "unexpired (orders (state_of (process_one draw j acc)))"
proof (cases acc)
  case (Inl a)
  then show ?thesis using assms by (simp add: process_one_def)
next
  case (Inr om)
  with assms have u: "unexpired (orders om)" by (simp add: state_of_def)
  show ?thesis
  proof (cases "map_of (orders om) j")
    case None
    with Inr u show ?thesis by (simp add: process_one_def state_of_def)
  next
    case (Some x)
    obtain cp om1 where g: "get_current_price om (o_symbol x) (draw j) = (cp, om1)"
      by (cases "get_current_price om (o_symbol x) (draw j)")
    then have o1: "orders om1 = orders om" by (metis orders_get_current_price snd_conv)
    have same: "unexpired (orders om1)" using u o1 by simp
    have fl: "\<And>lp. unexpired (orders (fill_limit_order om1 x lp (draw j)))"
      unfolding fill_limit_order_def orders_fill_order using same by (intro unexpired_update) simp_all
    show ?thesis
      using Inr Some g same fl u
      by (cases cp) (simp_all add: process_one_def state_of_def split: option.splits)
  qed
qed

lemma unexpired_process_loop:
  "unexpired (orders (state_of acc)) \<Longrightarrow>
   unexpired (orders (state_of (foldl (\<lambda>acc oid. process_one draw oid acc) acc L)))"
  by (induction L arbitrary: acc) (simp_all add: unexpired_process_one)

lemma unexpired_om_step: "unexpired (orders om) \<Longrightarrow> unexpired (orders (om_step om ev))"
proof (cases ev)
  case (EvProcessPending draw)
  assume "unexpired (orders om)"
  then have "unexpired (orders (state_of (Inr om)))" by (simp add: state_of_def)
  from unexpired_process_loop [OF this] EvProcessPending show ?thesis
    by (simp add: process_pending_orders_def)
qed (simp_all add: om_initialize_def unexpired_place unexpired_cancel om_shutdown_def unexpired_cancel_all)

lemma unexpired_om_run: "unexpired (orders om) \<Longrightarrow> unexpired (orders (om_run om evs))"
  unfolding om_run_def by (induction evs arbitrary: om) (simp_all add: unexpired_om_step)

lemma no_expired_order_reachable:
  assumes "map_of (orders (om_run OrderManager evs)) k = Some x"
  shows "status x \<noteq> EXPIRED"
proof -
  have "unexpired (orders OrderManager)" by (simp add: unexpired_def OrderManager_def)
  then have "unexpired (orders (om_run OrderManager evs))" by (rule unexpired_om_run)
  with map_of_SomeD [OF assms] show ?thesis unfolding unexpired_def by auto
qed

lemma fresh_ids_append:
  "fresh_ids om (evs1 @ evs2) \<longleftrightarrow> fresh_ids om evs1 \<and> fresh_ids (om_run om evs1) evs2"
  by (induction evs1 arbitrary: om) (simp_all add: om_run_def)

lemma om_run_append: "om_run om (evs1 @ evs2) = om_run (om_run om evs1) evs2"
  by (simp add: om_run_def)

lemma placed_then_later_fresh:
  "fresh_ids OrderManager
     ([EvPlaceOrder (mk_decision ''AAPL'' ''buy'' 10 None) (mk_env 0 ''o1'' ''f1'')] @ later_events)"
  unfolding later_events_def
  by (simp add: cancel_order_def process_pending_orders_def get_orders_def state_of_def order_defs
      process_one_def fill_limit_order_def om_shutdown_def Let_def)

lemma placed_order_filled:
  "map_of (orders (om_run OrderManager
      [EvPlaceOrder (mk_decision ''AAPL'' ''buy'' 10 None) (mk_env 0 ''o1'' ''f1'')])) ''o1''
   = Some \<lparr>order_id = ''o1'', o_symbol = ''AAPL'', o_action = ''buy'', o_quantity = 10,
            order_type = MARKET, o_price = None, stop_price = None, status = FILLED,
            created_at = 0, updated_at = 0, filled_quantity = 10,
            avg_fill_price = 3003 / 20, o_commission = 1, o_model_name = '''', o_reason = ''''\<rparr>"
  by (simp add: om_run_def order_defs Let_def)

text \<open>
  C8. Take any run of \<open>initialize\<close>, \<open>place_order\<close>, \<open>cancel_order\<close>,
  \<open>process_pending_orders\<close> and \<open>shutdown\<close> from the empty order manager, and any
  order whose status is terminal (FILLED, CANCELLED, REJECTED or EXPIRED) at some moment of
  the run. At every later moment the order is in the store with the same status; in
  particular a terminal status is never followed by a non-terminal one. (No operation
  assigns EXPIRED, so no order of a run is ever EXPIRED.)
\<close>

theorem terminal_status_never_changes:
  assumes "fresh_ids OrderManager (evs1 @ evs2)"
    and "map_of (orders (om_run OrderManager evs1)) oid = Some x"
    and "status x \<in> {FILLED, CANCELLED, REJECTED, EXPIRED}"
  shows "\<exists>y. map_of (orders (om_run OrderManager (evs1 @ evs2))) oid = Some y \<and> status y = status x"
proof -
  from assms(1) have f1: "fresh_ids OrderManager evs1" and f2: "fresh_ids (om_run OrderManager evs1) evs2"
    by (simp_all add: fresh_ids_append)
  have k0: "keyed (orders OrderManager)" by (simp add: keyed_def OrderManager_def)
  have k1: "keyed (orders (om_run OrderManager evs1))"
    using step_ok_om_run [OF k0 f1] by (rule step_ok_keyed)
  from no_expired_order_reachable [OF assms(2)] assms(3)
  have t: "status x \<in> {FILLED, CANCELLED, REJECTED}" by simp
  from step_ok_om_run [OF k1 f2] assms(2) obtain y where
    y: "map_of (orders (om_run (om_run OrderManager evs1) evs2)) oid = Some y"
      "status_follows (status x) (status y)"
    unfolding step_ok_def by blast
  from y(2) t have "status y = status x" unfolding status_follows_def by blast
  with y(1) show ?thesis by (simp add: om_run_append)
qed

theorem terminal_status_never_changes_witness:
  "map_option status (map_of (orders (om_run OrderManager
      ([EvPlaceOrder (mk_decision ''AAPL'' ''buy'' 10 None) (mk_env 0 ''o1'' ''f1'')] @ later_events)))
      ''o1'') = Some FILLED"
proof -
  from terminal_status_never_changes [OF placed_then_later_fresh placed_order_filled]
  show ?thesis by auto
qed

end
